theory Spec2Isabelle
  imports Complex_Main
begin

section \<open>Squirrel Stash Dash: a shallow embedding of the simulation core\<close>

text \<open>
  Python floats are modelled as \<^typ>\<open>real\<close> (exact arithmetic), Python ints as
  \<^typ>\<open>int\<close>. Mutation of an object is explicit state passing: a method takes the
  record of the object and returns the updated record, together with its return value.
\<close>

subsection \<open>player.py: the Squirrel\<close>

datatype squirrel_state = STATE_RUNNING | STATE_JUMPING | STATE_HIT

text \<open>
  The fields of \<open>Squirrel.__init__\<close>. The three \<open>frames_*\<close> fields stand for the
  lengths of the animation frame lists loaded from the asset folders; sprites and colours
  are left out.
\<close>

record Squirrel =
  x :: real
  y :: real
  width :: real
  height :: real
  frames_running :: nat
  frames_jumping :: nat
  frames_hit :: nat
  current_frame :: nat
  animation_timer :: real
  animation_speed :: real
  velocity_x :: real
  velocity_y :: real
  base_speed :: real
  speed_multiplier :: real
  speed_increase_rate :: real
  jump_strength :: real
  gravity :: real
  gap_gravity :: real
  is_grounded :: bool
  ground_y :: real
  falling_in_gap :: bool
  state :: squirrel_state
  yarn_count :: int
  hit_timer :: real
  hit_duration :: real
  hit_speed_reduction :: real
  max_lives :: int
  lives :: int
  life_lost_this_hit :: bool

definition Squirrel_init :: "nat \<Rightarrow> nat \<Rightarrow> nat \<Rightarrow> real \<Rightarrow> real \<Rightarrow> Squirrel" where
  "Squirrel_init nr nj nh x0 y0 =
     \<lparr> x = x0, y = y0, width = 110, height = 110,
       frames_running = nr, frames_jumping = nj, frames_hit = nh,
       current_frame = 0, animation_timer = 0, animation_speed = 0.1,
       velocity_x = 200, velocity_y = 0, base_speed = 200,
       speed_multiplier = 1.0, speed_increase_rate = 0.05,
       jump_strength = -550, gravity = 1200, gap_gravity = 4000,
       is_grounded = True, ground_y = y0, falling_in_gap = False,
       state = STATE_RUNNING, yarn_count = 0,
       hit_timer = 0, hit_duration = 1.0, hit_speed_reduction = 0.5,
       max_lives = 3, lives = 3, life_lost_this_hit = False \<rparr>"

definition jump :: "Squirrel \<Rightarrow> Squirrel" where
  "jump s =
     (if is_grounded s \<and> state s \<noteq> STATE_HIT
      then s\<lparr> velocity_y := jump_strength s, is_grounded := False, state := STATE_JUMPING \<rparr>
      else s)"

definition update_animation :: "real \<Rightarrow> Squirrel \<Rightarrow> Squirrel" where
  "update_animation dt s0 =
     (let s = s0\<lparr> animation_timer := animation_timer s0 + dt \<rparr>;
          frames = (case state s of STATE_RUNNING \<Rightarrow> frames_running s
                    | STATE_JUMPING \<Rightarrow> frames_jumping s
                    | STATE_HIT \<Rightarrow> frames_hit s);
          anim_speed = (case state s of STATE_RUNNING \<Rightarrow> animation_speed s / speed_multiplier s
                    | STATE_JUMPING \<Rightarrow> animation_speed s
                    | STATE_HIT \<Rightarrow> animation_speed s * 1.5)
      in if frames \<noteq> 0 \<and> animation_timer s \<ge> anim_speed
         then (if state s = STATE_HIT
               then s\<lparr> animation_timer := 0,
                       current_frame := min (current_frame s + 1) (frames - 1) \<rparr>
               else s\<lparr> animation_timer := 0,
                       current_frame := (current_frame s + 1) mod frames \<rparr>)
         else s)"

text \<open>
  \<open>Squirrel.update\<close>, one definition per block of the method, in the method's order:
  the speed ramp, the hit timer, the horizontal and vertical movement, the ground
  collision, the animation.
\<close>

definition ramp_speed :: "real \<Rightarrow> Squirrel \<Rightarrow> Squirrel" where
  "ramp_speed dt s =
     (if state s \<noteq> STATE_HIT
      then s\<lparr> speed_multiplier := min (speed_multiplier s + speed_increase_rate s * dt) 3.0 \<rparr>
      else s)"

definition tick_hit_timer :: "real \<Rightarrow> Squirrel \<Rightarrow> Squirrel" where
  "tick_hit_timer dt s =
     (if hit_timer s > 0
      then (if hit_timer s - dt \<le> 0
            then s\<lparr> hit_timer := hit_timer s - dt,
                    state := (if is_grounded s then STATE_RUNNING else STATE_JUMPING) \<rparr>
            else s\<lparr> hit_timer := hit_timer s - dt \<rparr>)
      else s)"

definition move :: "real \<Rightarrow> Squirrel \<Rightarrow> Squirrel" where
  "move dt s =
     (let current_speed_mult = (if state s = STATE_HIT then hit_speed_reduction s else 1.0);
          vx = base_speed s * speed_multiplier s * current_speed_mult;
          current_gravity = (if falling_in_gap s then gap_gravity s else gravity s);
          vy = velocity_y s + current_gravity * dt
      in s\<lparr> velocity_x := vx, x := x s + vx * dt, velocity_y := vy, y := y s + vy * dt \<rparr>)"

definition ground_collision :: "Squirrel \<Rightarrow> Squirrel" where
  "ground_collision s =
     (if y s \<ge> ground_y s
      then (if state s = STATE_JUMPING
            then s\<lparr> y := ground_y s, velocity_y := 0, is_grounded := True,
                    state := (if hit_timer s \<le> 0 then STATE_RUNNING else STATE_HIT),
                    current_frame := 0 \<rparr>
            else s\<lparr> y := ground_y s, velocity_y := 0, is_grounded := True \<rparr>)
      else s\<lparr> is_grounded := False \<rparr>)"

definition update :: "real \<Rightarrow> Squirrel \<Rightarrow> Squirrel" where
  "update dt s =
     update_animation dt (ground_collision (move dt (tick_hit_timer dt (ramp_speed dt s))))"

definition collect_yarn :: "int \<Rightarrow> Squirrel \<Rightarrow> Squirrel" where
  "collect_yarn amount s = s\<lparr> yarn_count := yarn_count s + amount \<rparr>"

text \<open>One entry of the \<open>yarn_positions\<close> list that \<open>hit_obstacle\<close> returns (a dict there).\<close>

record yarn_position =
  pos_x :: real
  pos_y :: real
  pos_velocity_x :: real
  pos_velocity_y :: real

text \<open>The body of the scatter loop for index \<open>i\<close> of \<open>range(scatter_count)\<close>.\<close>

definition scatter_angle :: "int \<Rightarrow> int \<Rightarrow> real" where
  "scatter_angle scatter_count i =
     (let angle_range = pi * 1.5;
          angle_start = - pi * 0.75
      in angle_start + (real_of_int i / real_of_int (max (scatter_count - 1) 1)) * angle_range)"

definition scatter_entry :: "Squirrel \<Rightarrow> int \<Rightarrow> int \<Rightarrow> yarn_position" where
  "scatter_entry s scatter_count i =
     (let angle = scatter_angle scatter_count i;
          speed = real_of_int (200 + (i mod 3) * 50)
      in \<lparr> pos_x = x s + width s / 2,
           pos_y = y s + height s / 2,
           pos_velocity_x = cos angle * speed,
           pos_velocity_y = sin angle * speed - 150 \<rparr>)"

definition hit_obstacle :: "Squirrel \<Rightarrow> (int \<times> yarn_position list \<times> bool) \<times> Squirrel" where
  "hit_obstacle s0 =
     (if state s0 = STATE_HIT then ((0, [], False), s0)
      else
        (let s1 = s0\<lparr> state := STATE_HIT, hit_timer := hit_duration s0 \<rparr>;
             s2 = s1\<lparr> lives := lives s1 - 1 \<rparr>;
             is_dead = (lives s2 \<le> 0);
             s3 = s2\<lparr> velocity_y := -200, is_grounded := False \<rparr>;
             half = yarn_count s3 div 2;
             yarn_to_lose = (if half = 0 \<and> yarn_count s3 > 0 then 1 else half);
             scatter_count = min yarn_to_lose 10;
             yarn_positions = map (scatter_entry s3 scatter_count) [0 .. scatter_count - 1];
             s4 = s3\<lparr> yarn_count := yarn_count s3 - yarn_to_lose \<rparr>
         in ((yarn_to_lose, yarn_positions, is_dead), s4)))"

definition add_life :: "Squirrel \<Rightarrow> bool \<times> Squirrel" where
  "add_life s =
     (if lives s < max_lives s then (True, s\<lparr> lives := lives s + 1 \<rparr>) else (False, s))"

definition reset_lives :: "Squirrel \<Rightarrow> Squirrel" where
  "reset_lives s = s\<lparr> lives := max_lives s \<rparr>"

definition get_speed_percentage :: "Squirrel \<Rightarrow> real" where
  "get_speed_percentage s = (speed_multiplier s / 3.0) * 100"

text \<open>
  A sequence of calls on one player: \<open>hit_obstacle()\<close>, \<open>add_life()\<close>, and
  \<open>update(dt)\<close>, which is what lets the hit stun run out between two hits.
\<close>

datatype player_call = HitObstacle | AddLife | Tick real

fun apply_call :: "Squirrel \<Rightarrow> player_call \<Rightarrow> Squirrel" where
  "apply_call s HitObstacle = snd (hit_obstacle s)"
| "apply_call s AddLife = snd (add_life s)"
| "apply_call s (Tick dt) = update dt s"

fun run_calls :: "Squirrel \<Rightarrow> player_call list \<Rightarrow> Squirrel" where
  "run_calls s [] = s"
| "run_calls s (c # cs) = run_calls (apply_call s c) cs"

text \<open>
  The orchestrator's discipline (\<open>Game._check_collisions\<close> ends the run as soon as a hit
  returns \<open>is_dead\<close>): no hit is delivered to a player whose lives are used up.
\<close>

fun hits_while_alive :: "Squirrel \<Rightarrow> player_call list \<Rightarrow> bool" where
  "hits_while_alive s [] = True"
| "hits_while_alive s (c # cs) =
     ((c \<noteq> HitObstacle \<or> 0 < lives s) \<and> hits_while_alive (apply_call s c) cs)"

subsection \<open>camera.py: the Camera\<close>

record Camera =
  screen_width :: real
  screen_height :: real
  x :: real
  y :: real
  target_x :: real
  lerp_speed :: real
  base_offset :: real
  max_offset :: real

definition Camera_init :: "real \<Rightarrow> real \<Rightarrow> Camera" where
  "Camera_init sw sh =
     \<lparr> screen_width = sw, screen_height = sh, x = 0, y = 0, target_x = 0,
       lerp_speed = 5.0, base_offset = sw * 0.3, max_offset = sw * 0.5 \<rparr>"

definition Camera_update :: "real \<Rightarrow> real \<Rightarrow> real \<Rightarrow> Camera \<Rightarrow> Camera" where
  "Camera_update dt player_x player_speed_percentage c =
     (let speed_factor = player_speed_percentage / 100.0;
          current_offset = base_offset c + (max_offset c - base_offset c) * speed_factor;
          c1 = c\<lparr> target_x := player_x - current_offset \<rparr>;
          c2 = c1\<lparr> x := Camera.x c1 + (target_x c1 - Camera.x c1) * lerp_speed c1 * dt \<rparr>;
          c3 = c2\<lparr> x := max 0 (Camera.x c2) \<rparr>
      in c3\<lparr> y := 0 \<rparr>)"

text \<open>\<open>n\<close> calls of \<open>Camera.update\<close> with the same arguments.\<close>

fun Camera_ticks :: "nat \<Rightarrow> real \<Rightarrow> real \<Rightarrow> real \<Rightarrow> Camera \<Rightarrow> Camera" where
  "Camera_ticks 0 dt player_x pct c = c"
| "Camera_ticks (Suc n) dt player_x pct c =
     Camera_update dt player_x pct (Camera_ticks n dt player_x pct c)"

text \<open>The target that \<open>Camera.update\<close> computes for a player position and speed percentage.\<close>

definition camera_target :: "Camera \<Rightarrow> real \<Rightarrow> real \<Rightarrow> real" where
  "camera_target c player_x pct = target_x (Camera_update 0 player_x pct c)"

subsection \<open>The random source\<close>

text \<open>
  Python's module-level \<open>random\<close> is modelled as an explicit source: the infinite stream of
  the raw draws still to come. Every call of \<open>random.random\<close>, \<open>random.randint\<close> or
  \<open>random.choice\<close> takes the first raw draw and leaves the rest. \<open>random.random()\<close> is a
  multiple of \<open>2^-53\<close> in \<open>[0, 1)\<close>; \<open>random.randint(a, b)\<close> lies in \<open>[a, b]\<close> (every call
  in the sources has \<open>a \<le> b\<close>); \<open>random.choice\<close> raises IndexError on an empty sequence.
\<close>

type_synonym rng = "nat \<Rightarrow> nat"

datatype py_error = IndexError | KeyError

definition rng_tail :: "rng \<Rightarrow> rng" where
  "rng_tail r = (\<lambda>i. r (Suc i))"

definition rng_drop :: "nat \<Rightarrow> rng \<Rightarrow> rng" where
  "rng_drop n r = (\<lambda>i. r (i + n))"

definition random_random :: "rng \<Rightarrow> real \<times> rng" where
  "random_random r = (real (r 0 mod 2 ^ 53) / 2 ^ 53, rng_tail r)"

definition random_randint :: "int \<Rightarrow> int \<Rightarrow> rng \<Rightarrow> int \<times> rng" where
  "random_randint a b r = (a + int (r 0) mod (b - a + 1), rng_tail r)"

definition random_choice :: "'a list \<Rightarrow> rng \<Rightarrow> py_error + ('a \<times> rng)" where
  "random_choice xs r =
     (if xs = [] then Inl IndexError else Inr (xs ! (r 0 mod length xs), rng_tail r))"

text \<open>A source given by its first draws, followed by zeros.\<close>

definition draws :: "nat list \<Rightarrow> rng" where
  "draws xs = (\<lambda>i. if i < length xs then xs ! i else 0)"

subsection \<open>yarn.py: tiers, skeins and spawning\<close>

record yarn_tier =
  colors :: "string list"
  points :: int
  min_stash :: int
  spawn_chance :: "real option"

text \<open>The dict \<open>YARN_TIERS\<close>, in its insertion order.\<close>

definition YARN_TIERS :: "(string \<times> yarn_tier) list" where
  "YARN_TIERS =
     [(''basic'', \<lparr> colors = [''red'', ''green'', ''blue''],
                   points = 1, min_stash = 0, spawn_chance = None \<rparr>),
      (''mid'', \<lparr> colors = [''cyan'', ''magenta'', ''yellow'', ''black''],
                 points = 2, min_stash = 10, spawn_chance = None \<rparr>),
      (''late'', \<lparr> colors = [''orange'', ''purple'', ''lime'', ''teal'', ''pink'', ''brown''],
                  points = 3, min_stash = 25, spawn_chance = None \<rparr>),
      (''rare'', \<lparr> colors = [''rainbow''],
                  points = 5, min_stash = 0, spawn_chance = Some 0.05 \<rparr>)]"

text \<open>\<open>YARN_TIERS[name]\<close>: a missing key raises KeyError.\<close>

definition tier_of :: "string \<Rightarrow> py_error + yarn_tier" where
  "tier_of name = (case map_of YARN_TIERS name of None \<Rightarrow> Inl KeyError | Some t \<Rightarrow> Inr t)"

record YarnSkein =
  color_name :: string
  points :: int
  world_x :: real
  world_y :: real
  bob_offset :: real
  wiggle_offset :: real
  time :: real
  is_rainbow :: bool
  velocity_x :: real
  velocity_y :: real
  is_scattered :: bool
  scatter_timer :: int
  scatter_duration :: int

text \<open>
  \<open>YarnSkein.__init__\<close> draws two random phases for the bobbing animation; images and the
  animation constants are left out.
\<close>

definition YarnSkein_init :: "real \<Rightarrow> real \<Rightarrow> string \<Rightarrow> int \<Rightarrow> rng \<Rightarrow> YarnSkein \<times> rng" where
  "YarnSkein_init x0 y0 color pts r =
     (let (u1, r1) = random_random r;
          (u2, r2) = random_random r1
      in (\<lparr> color_name = color, YarnSkein.points = pts,
             YarnSkein.world_x = x0, YarnSkein.world_y = y0,
             bob_offset = u1 * pi * 2, wiggle_offset = u2 * pi * 2, time = 0,
             is_rainbow = (color = ''rainbow''),
             YarnSkein.velocity_x = 0, YarnSkein.velocity_y = 0,
             is_scattered = False, scatter_timer = 0, scatter_duration = 180 \<rparr>, r2))"

definition is_expired :: "YarnSkein \<Rightarrow> bool" where
  "is_expired yk = (is_scattered yk \<and> scatter_timer yk \<ge> scatter_duration yk)"

definition YarnSkein_is_off_screen :: "YarnSkein \<Rightarrow> real \<Rightarrow> real \<Rightarrow> bool" where
  "YarnSkein_is_off_screen yk camera_offset buffer = (YarnSkein.world_x yk < camera_offset - buffer)"

text \<open>The loop of \<open>get_available_colors\<close> over \<open>YARN_TIERS.items()\<close>.\<close>

fun extend_available :: "int \<Rightarrow> (string \<times> yarn_tier) list \<Rightarrow> string list \<Rightarrow> string list" where
  "extend_available stash [] available = available"
| "extend_available stash ((tier_name, tier) # rest) available =
     (if tier_name = ''rare'' then extend_available stash rest available
      else if stash \<ge> min_stash tier
           then extend_available stash rest (available @ colors tier)
           else extend_available stash rest available)"

definition get_available_colors :: "int \<Rightarrow> py_error + string list" where
  "get_available_colors stash =
     (let available = extend_available stash YARN_TIERS []
      in if available \<noteq> [] then Inr available
         else (case tier_of ''basic'' of Inl e \<Rightarrow> Inl e | Inr t \<Rightarrow> Inr (colors t)))"

text \<open>The loop of \<open>get_min_stash_for_color\<close> over \<open>YARN_TIERS.values()\<close>.\<close>

fun min_stash_in :: "string \<Rightarrow> (string \<times> yarn_tier) list \<Rightarrow> int" where
  "min_stash_in color [] = 0"
| "min_stash_in color ((tier_name, tier) # rest) =
     (if color \<in> set (colors tier) then min_stash tier else min_stash_in color rest)"

definition get_min_stash_for_color :: "string \<Rightarrow> int" where
  "get_min_stash_for_color color = min_stash_in color YARN_TIERS"

text \<open>The loop of \<open>spawn_yarn\<close> that finds the points of the chosen colour.\<close>

fun points_in :: "string \<Rightarrow> (string \<times> yarn_tier) list \<Rightarrow> int" where
  "points_in color [] = 1"
| "points_in color ((tier_name, tier) # rest) =
     (if color \<in> set (colors tier) then yarn_tier.points tier else points_in color rest)"

text \<open>
  \<open>spawn_yarn\<close> is declared to return \<open>Optional[YarnSkein]\<close>: the result is \<open>Inl\<close> of an
  exception, or \<open>Inr\<close> of the returned value (\<open>None\<close> or a skein) and the rest of the random
  source.
\<close>

definition spawn_yarn :: "real \<Rightarrow> real \<Rightarrow> int \<Rightarrow> rng \<Rightarrow> py_error + (YarnSkein option \<times> rng)" where
  "spawn_yarn x0 y0 stash r =
     (let (u, r1) = random_random r
      in case tier_of ''rare'' of Inl e \<Rightarrow> Inl e
         | Inr rare \<Rightarrow>
        (case spawn_chance rare of None \<Rightarrow> Inl KeyError
         | Some chance \<Rightarrow>
           if u < chance
           then (let (yk, r2) = YarnSkein_init x0 y0 ''rainbow'' (yarn_tier.points rare) r1
                 in Inr (Some yk, r2))
           else (case get_available_colors stash of Inl e \<Rightarrow> Inl e
                 | Inr available \<Rightarrow>
                   (case random_choice available r1 of Inl e \<Rightarrow> Inl e
                    | Inr (color, r2) \<Rightarrow>
                      (let (yk, r3) = YarnSkein_init x0 y0 color (points_in color YARN_TIERS) r2
                       in Inr (Some yk, r3))))))"

subsection \<open>obstacles.py: platforms, ground columns, bushes, gaps\<close>

text \<open>Images, rects and the sprite-dependent platform height are left out.\<close>

record Platform =
  world_x :: real
  world_y :: real
  width :: int

definition Platform_init :: "real \<Rightarrow> real \<Rightarrow> int \<Rightarrow> Platform" where
  "Platform_init x0 y0 w = \<lparr> Platform.world_x = x0, Platform.world_y = y0, Platform.width = w \<rparr>"

definition Platform_is_off_screen :: "Platform \<Rightarrow> real \<Rightarrow> real \<Rightarrow> bool" where
  "Platform_is_off_screen p camera_offset buffer = (Platform.world_x p < camera_offset - buffer)"

record Ground =
  world_x :: real
  world_y :: real
  height :: int

text \<open>
  \<open>Ground.__init__\<close>. When the ground tileset was loaded, \<open>_build_from_tileset\<close> calls
  \<open>random.choice\<close> once for every tile of the column (\<open>tiles_down\<close> rows of 4) that is not
  an edge tile; each call takes one draw. Without the tileset no draw is taken.
\<close>

definition Ground_init :: "int \<Rightarrow> int \<Rightarrow> bool \<Rightarrow> bool \<Rightarrow> bool \<Rightarrow> rng \<Rightarrow> Ground \<times> rng" where
  "Ground_init x0 y0 is_left_edge is_right_edge loaded r =
     (let h = 600 - y0;
          tiles_across = 64 div 16;
          tiles_down = (h + 16 - 1) div 16;
          per_row = tiles_across - (if is_left_edge then 1 else 0)
                                 - (if is_right_edge then 1 else 0);
          taken = (if loaded then nat tiles_down * nat per_row else 0)
      in (\<lparr> Ground.world_x = real_of_int x0, Ground.world_y = real_of_int y0,
             Ground.height = h \<rparr>, rng_drop taken r))"

definition Ground_is_off_screen :: "Ground \<Rightarrow> real \<Rightarrow> real \<Rightarrow> bool" where
  "Ground_is_off_screen g camera_offset buffer = (Ground.world_x g < camera_offset - buffer)"

record Bush =
  world_x :: real
  world_y :: real
  width :: int
  height :: int

definition Bush_init :: "real \<Rightarrow> real \<Rightarrow> Bush" where
  "Bush_init x0 y0 = \<lparr> Bush.world_x = x0, Bush.world_y = y0, Bush.width = 64, Bush.height = 48 \<rparr>"

definition Bush_is_off_screen :: "Bush \<Rightarrow> real \<Rightarrow> real \<Rightarrow> bool" where
  "Bush_is_off_screen b camera_offset buffer = (Bush.world_x b < camera_offset - buffer)"

record Gap =
  start_x :: real
  width :: real
  end_x :: real
  ground_y :: real

definition Gap_init :: "real \<Rightarrow> real \<Rightarrow> real \<Rightarrow> Gap" where
  "Gap_init sx w gy = \<lparr> start_x = sx, Gap.width = w, end_x = sx + w, Gap.ground_y = gy \<rparr>"

definition contains_x :: "Gap \<Rightarrow> real \<Rightarrow> bool" where
  "contains_x gap x0 = (start_x gap \<le> x0 \<and> x0 \<le> end_x gap)"

definition Gap_is_off_screen :: "Gap \<Rightarrow> real \<Rightarrow> real \<Rightarrow> bool" where
  "Gap_is_off_screen gap camera_offset buffer = (end_x gap < camera_offset - buffer)"

subsection \<open>generator.py: the LevelGenerator\<close>

definition SCREEN_WIDTH :: int where "SCREEN_WIDTH = 800"
definition GROUND_Y :: int where "GROUND_Y = 584"
definition GROUND_TILE_SIZE :: int where "GROUND_TILE_SIZE = 64"
definition PLATFORM_LOW_Y :: int where "PLATFORM_LOW_Y = 514"
definition PLATFORM_MID_Y :: int where "PLATFORM_MID_Y = 474"
definition PLATFORM_HIGH_Y :: int where "PLATFORM_HIGH_Y = 434"
definition PLATFORM_MIN_SPACING :: int where "PLATFORM_MIN_SPACING = 250"
definition CHUNK_WIDTH :: int where "CHUNK_WIDTH = 400"

text \<open>
  The generator's attributes. \<open>current_stash\<close> is set by \<open>update\<close> only and read with
  \<open>getattr(self, 'current_stash', 0)\<close>, so it is an option. \<open>tileset_loaded\<close> stands for the
  class-level \<open>Ground._tileset.loaded\<close> (whether the tileset image was found). The frontier
  \<open>last_generated_x\<close> and the tile positions only take integer values (0, 1200, and steps
  of 400 and 64).
\<close>

record LevelGenerator =
  last_generated_x :: int
  difficulty :: real
  ground_tiles :: "Ground list"
  platforms :: "Platform list"
  bushes :: "Bush list"
  gaps :: "Gap list"
  yarns :: "YarnSkein list"
  last_platform_x :: int
  last_platform_y :: int
  yarn_reset_to_basic :: bool
  current_stash :: "int option"
  tileset_loaded :: bool

definition LevelGenerator_init :: "bool \<Rightarrow> LevelGenerator" where
  "LevelGenerator_init loaded =
     \<lparr> last_generated_x = 0, difficulty = 1.0,
       ground_tiles = [], platforms = [], bushes = [], gaps = [], yarns = [],
       last_platform_x = -1000, last_platform_y = GROUND_Y,
       yarn_reset_to_basic = False, current_stash = None, tileset_loaded = loaded \<rparr>"

text \<open>\<open>getattr(self, 'current_stash', 0)\<close>\<close>

definition getattr_current_stash :: "LevelGenerator \<Rightarrow> int" where
  "getattr_current_stash g = (case current_stash g of None \<Rightarrow> 0 | Some s \<Rightarrow> s)"

text \<open>\<open>if yarn: self.yarns.append(yarn)\<close>\<close>

definition append_yarn :: "YarnSkein option \<Rightarrow> LevelGenerator \<Rightarrow> LevelGenerator" where
  "append_yarn yarn g = (case yarn of None \<Rightarrow> g | Some yk \<Rightarrow> g\<lparr> yarns := yarns g @ [yk] \<rparr>)"

text \<open>The first loop of \<open>_generate_chunk\<close>: the tile positions of the chunk.\<close>

function tile_positions_loop :: "int \<Rightarrow> int \<Rightarrow> int list \<Rightarrow> int list" where
  "tile_positions_loop x0 limit tile_positions =
     (if x0 < limit
      then tile_positions_loop (x0 + GROUND_TILE_SIZE) limit (tile_positions @ [x0])
      else tile_positions)"
  by pat_completeness auto
termination
  by (relation "measure (\<lambda>(x0, limit, tile_positions). nat (limit - x0))")
     (auto simp add: GROUND_TILE_SIZE_def)

declare tile_positions_loop.simps [simp del]

text \<open>
  The inner loop \<open>for j in range(num_tiles)\<close> of the gap decision, over the list of the
  \<open>j\<close>: it marks the positions of the gap and counts them.
\<close>

fun mark_gap_tiles :: "int list \<Rightarrow> nat \<Rightarrow> nat list \<Rightarrow> int set \<times> nat \<Rightarrow> int set \<times> nat" where
  "mark_gap_tiles tile_positions i [] acc = acc"
| "mark_gap_tiles tile_positions i (j # js) (gap_positions, tiles_added) =
     (if i + j < length tile_positions
      then mark_gap_tiles tile_positions i js
             (insert (tile_positions ! (i + j)) gap_positions, tiles_added + 1)
      else mark_gap_tiles tile_positions i js (gap_positions, tiles_added))"

text \<open>
  The body of the gap decision for a position \<open>i\<close> where a gap starts: the gap, its rescue
  platform, and the yarn on the platform. It returns the number of tiles of the gap too.
\<close>

definition create_gap ::
  "int list \<Rightarrow> nat \<Rightarrow> LevelGenerator \<times> int set \<times> rng
     \<Rightarrow> py_error + (nat \<times> LevelGenerator \<times> int set \<times> rng)" where
  "create_gap tile_positions i st =
     (case st of (g, gap_positions, r1) \<Rightarrow>
      (let (num_tiles, r2) = random_randint 2 3 r1;
           gap_start_x = tile_positions ! i;
           (gap_positions', tiles_added) =
              mark_gap_tiles tile_positions i [0 ..< nat num_tiles] (gap_positions, 0);
           gap_width = int tiles_added * GROUND_TILE_SIZE;
           g1 = g\<lparr> gaps := gaps g @
                  [Gap_init (real_of_int gap_start_x) (real_of_int gap_width)
                     (real_of_int GROUND_Y)] \<rparr>;
           platform_y = PLATFORM_LOW_Y;
           platform_width = gap_width + 40;
           g2 = g1\<lparr> platforms := platforms g1 @
                   [Platform_init (real_of_int (gap_start_x - 10)) (real_of_int platform_y)
                      platform_width],
                   last_platform_x := gap_start_x,
                   last_platform_y := platform_y \<rparr>;
           stash = getattr_current_stash g2
       in case spawn_yarn (real_of_int (gap_start_x + gap_width div 2))
                 (real_of_int (platform_y - 45)) stash r2 of
            Inl e \<Rightarrow> Inl e
          | Inr (yarn, r3) \<Rightarrow> Inr (tiles_added, append_yarn yarn g2, gap_positions', r3)))"

lemma mark_gap_tiles_mono:
  "tiles_added \<le> snd (mark_gap_tiles tile_positions i js (gap_positions, tiles_added))"
proof (induction js arbitrary: gap_positions tiles_added)
  case Nil
  then show ?case by simp
next
  case (Cons j js)
  show ?case
    using Cons.IH [where gap_positions = "insert (tile_positions ! (i + j)) gap_positions"
        and tiles_added = "tiles_added + 1"]
      Cons.IH [where gap_positions = gap_positions and tiles_added = tiles_added]
    by simp
qed

lemma create_gap_advances:
  assumes "create_gap tile_positions i st = Inr (tiles_added, st')"
    and "i < length tile_positions"
  shows "0 < tiles_added"
proof -
  obtain g gap_positions r1 where st: "st = (g, gap_positions, r1)" by (cases st) auto
  obtain num_tiles r2 where rr: "random_randint 2 3 r1 = (num_tiles, r2)" by force
  then have "2 \<le> num_tiles" by (auto simp add: random_randint_def)
  then obtain js where js: "[0 ..< nat num_tiles] = 0 # js"
    by (cases "nat num_tiles") (auto simp add: upt_conv_Cons)
  obtain gp' n where m: "mark_gap_tiles tile_positions i [0 ..< nat num_tiles] (gap_positions, 0) = (gp', n)"
    by force
  have "1 \<le> snd (mark_gap_tiles tile_positions i js
            (insert (tile_positions ! i) gap_positions, 1))"
    by (rule mark_gap_tiles_mono)
  with m js assms(2) have "0 < n" by simp
  moreover have "tiles_added = n"
    using assms(1) by (simp add: create_gap_def st rr m Let_def split: sum.splits prod.splits)
  ultimately show ?thesis by simp
qed

text \<open>
  The gap-decision loop \<open>while i < len(tile_positions)\<close>. \<open>random.random()\<close> is drawn before
  the position test, as the left operand of \<open>and\<close>.
\<close>

function gap_loop ::
  "int list \<Rightarrow> real \<Rightarrow> nat \<Rightarrow> LevelGenerator \<times> int set \<times> rng
     \<Rightarrow> py_error + (LevelGenerator \<times> int set \<times> rng)" where
  "gap_loop tile_positions chance i (g, gap_positions, r) =
     (if i < length tile_positions
      then (let (u, r1) = random_random r
            in if u < chance \<and> i + 1 < length tile_positions
               then (case create_gap tile_positions i (g, gap_positions, r1) of
                       Inl e \<Rightarrow> Inl e
                     | Inr (tiles_added, st) \<Rightarrow>
                         gap_loop tile_positions chance (i + tiles_added) st)
               else gap_loop tile_positions chance (i + 1) (g, gap_positions, r1))
      else Inr (g, gap_positions, r))"
  by pat_completeness auto
termination
  by (relation "measure (\<lambda>(tile_positions, chance, i, st). length tile_positions - i)")
     (auto dest: create_gap_advances)

declare gap_loop.simps [simp del]

text \<open>The spawn probabilities that \<open>_generate_chunk\<close> computes before each roll.\<close>

definition gap_chance :: "LevelGenerator \<Rightarrow> real \<Rightarrow> real" where
  "gap_chance g distance = (if distance > 100 then 0.05 * difficulty g else 0)"

definition bush_chance :: "LevelGenerator \<Rightarrow> real \<Rightarrow> real" where
  "bush_chance g distance = (if distance > 50 then 0.06 * difficulty g else 0)"

definition platform_chance :: "real \<Rightarrow> real" where
  "platform_chance distance = (if distance > 80 then 0.08 else 0)"

definition yarn_chance :: "int \<Rightarrow> real" where
  "yarn_chance stash = 0.20 - min 0.08 (real_of_int stash * 0.004)"

text \<open>The platform heights to choose from: the high one only past distance 200.\<close>

definition platform_heights :: "real \<Rightarrow> int list" where
  "platform_heights distance =
     [PLATFORM_LOW_Y, PLATFORM_MID_Y] @ (if distance > 200 then [PLATFORM_HIGH_Y] else [])"

text \<open>
  The body of the second loop of \<open>_generate_chunk\<close> for one tile column that is not in a
  gap, after the ground tile is placed: first the bush roll, then the platform roll with the
  airborne yarn roll as its \<open>else\<close> branch.
\<close>

definition roll_bush :: "int \<Rightarrow> real \<Rightarrow> LevelGenerator \<times> rng \<Rightarrow> LevelGenerator \<times> rng" where
  "roll_bush tile_x distance st =
     (case st of (g, r) \<Rightarrow>
      (let (u, r1) = random_random r
       in if u < bush_chance g distance
          then (let (k, r2) = random_randint 10 30 r1;
                    bush_x = tile_x + k;
                    bush_height = 48;
                    bush_y_offset = 12
                in (g\<lparr> bushes := bushes g @
                        [Bush_init (real_of_int bush_x)
                           (real_of_int (GROUND_Y - bush_height + bush_y_offset))] \<rparr>, r2))
          else (g, r1)))"

definition roll_platform_or_yarn ::
  "int \<Rightarrow> real \<Rightarrow> LevelGenerator \<times> rng \<Rightarrow> py_error + (LevelGenerator \<times> rng)" where
  "roll_platform_or_yarn tile_x distance st =
     (case st of (g, r) \<Rightarrow>
      (let (u, r1) = random_random r
       in if u < platform_chance distance \<and> tile_x - last_platform_x g > PLATFORM_MIN_SPACING
          then (let heights = platform_heights distance
                in case random_choice heights r1 of Inl e \<Rightarrow> Inl e
                   | Inr (platform_y, r2) \<Rightarrow>
                  (case random_choice [96, 128, 160] r2 of Inl e \<Rightarrow> Inl e
                   | Inr (platform_width, r3) \<Rightarrow>
                     (let g1 = g\<lparr> platforms := platforms g @
                                   [Platform_init (real_of_int tile_x) (real_of_int platform_y)
                                      platform_width],
                                 last_platform_x := tile_x,
                                 last_platform_y := platform_y \<rparr>;
                          (u2, r4) = random_random r3
                      in if u2 < 0.7
                         then (let stash = getattr_current_stash g1
                               in case spawn_yarn
                                         (real_of_int (tile_x + platform_width div 2 - 16))
                                         (real_of_int (platform_y - 45)) stash r4 of
                                    Inl e \<Rightarrow> Inl e
                                  | Inr (yarn, r5) \<Rightarrow> Inr (append_yarn yarn g1, r5))
                         else Inr (g1, r4))))
          else (let stash = getattr_current_stash g;
                    (u2, r2) = random_random r1
                in if u2 < yarn_chance stash
                   then (let (k, r3) = random_randint 10 50 r2;
                             yarn_x = tile_x + k
                         in case random_choice [60, 90, 120] r3 of Inl e \<Rightarrow> Inl e
                            | Inr (h, r4) \<Rightarrow>
                              (let yarn_y = GROUND_Y - h
                               in case spawn_yarn (real_of_int yarn_x) (real_of_int yarn_y)
                                         stash r4 of
                                    Inl e \<Rightarrow> Inl e
                                  | Inr (yarn, r5) \<Rightarrow> Inr (append_yarn yarn g, r5)))
                   else Inr (g, r2))))"

text \<open>The body of the second loop for the column of index \<open>idx\<close>.\<close>

definition place_tile ::
  "int list \<Rightarrow> int set \<Rightarrow> real \<Rightarrow> nat \<Rightarrow> LevelGenerator \<times> rng
     \<Rightarrow> py_error + (LevelGenerator \<times> rng)" where
  "place_tile tile_positions gap_positions distance idx st =
     (case st of (g, r) \<Rightarrow>
      (let tile_x = tile_positions ! idx
       in if tile_x \<in> gap_positions then Inr (g, r)
          else (let prev_x = (if idx > 0 then Some (tile_positions ! (idx - 1)) else None);
                    next_x = (if idx < length tile_positions - 1
                              then Some (tile_positions ! (idx + 1)) else None);
                    is_left_edge = (case prev_x of None \<Rightarrow> False | Some p \<Rightarrow> p \<in> gap_positions);
                    is_right_edge = (case next_x of None \<Rightarrow> False | Some n \<Rightarrow> n \<in> gap_positions);
                    (ground, r1) = Ground_init tile_x GROUND_Y is_left_edge is_right_edge
                                     (tileset_loaded g) r;
                    g1 = g\<lparr> ground_tiles := ground_tiles g @ [ground] \<rparr>
                in roll_platform_or_yarn tile_x distance (roll_bush tile_x distance (g1, r1)))))"

text \<open>The second loop, \<open>for idx, tile_x in enumerate(tile_positions)\<close>, over the indices.\<close>

fun place_tiles ::
  "int list \<Rightarrow> int set \<Rightarrow> real \<Rightarrow> nat list \<Rightarrow> LevelGenerator \<times> rng
     \<Rightarrow> py_error + (LevelGenerator \<times> rng)" where
  "place_tiles tile_positions gap_positions distance [] st = Inr st"
| "place_tiles tile_positions gap_positions distance (idx # rest) st =
     (case place_tile tile_positions gap_positions distance idx st of
        Inl e \<Rightarrow> Inl e
      | Inr st' \<Rightarrow> place_tiles tile_positions gap_positions distance rest st')"

text \<open>\<open>LevelGenerator._generate_chunk\<close>\<close>

definition generate_chunk ::
  "int \<Rightarrow> real \<Rightarrow> LevelGenerator \<times> rng \<Rightarrow> py_error + (LevelGenerator \<times> rng)" where
  "generate_chunk start_x0 distance st =
     (case st of (g, r) \<Rightarrow>
      (let tile_positions = tile_positions_loop start_x0 (start_x0 + CHUNK_WIDTH) []
       in case gap_loop tile_positions (gap_chance g distance) 0 (g, {}, r) of
            Inl e \<Rightarrow> Inl e
          | Inr (g1, gap_positions, r1) \<Rightarrow>
              place_tiles tile_positions gap_positions distance
                [0 ..< length tile_positions] (g1, r1)))"

definition cleanup :: "real \<Rightarrow> LevelGenerator \<Rightarrow> LevelGenerator" where
  "cleanup camera_x g =
     (let buffer = 200;
          stash = getattr_current_stash g
      in g\<lparr> ground_tiles := filter (\<lambda>t. \<not> Ground_is_off_screen t camera_x buffer) (ground_tiles g),
            platforms := filter (\<lambda>p. \<not> Platform_is_off_screen p camera_x buffer) (platforms g),
            bushes := filter (\<lambda>b. \<not> Bush_is_off_screen b camera_x buffer) (bushes g),
            gaps := filter (\<lambda>gap. \<not> Gap_is_off_screen gap camera_x buffer) (gaps g),
            yarns := filter (\<lambda>yk. \<not> YarnSkein_is_off_screen yk camera_x buffer
                                  \<and> \<not> is_expired yk
                                  \<and> get_min_stash_for_color (color_name yk) \<le> stash)
                       (yarns g) \<rparr>)"

definition reset_yarn_tiers :: "LevelGenerator \<Rightarrow> LevelGenerator" where
  "reset_yarn_tiers g = g\<lparr> yarn_reset_to_basic := True \<rparr>"

definition restore_yarn_progression :: "LevelGenerator \<Rightarrow> LevelGenerator" where
  "restore_yarn_progression g = g\<lparr> yarn_reset_to_basic := False \<rparr>"

text \<open>The loop of \<open>get_ground_at\<close> over the stored gaps.\<close>

fun ground_at_loop :: "Gap list \<Rightarrow> real \<Rightarrow> real option" where
  "ground_at_loop [] x0 = Some (real_of_int GROUND_Y)"
| "ground_at_loop (gap # rest) x0 = (if contains_x gap x0 then None else ground_at_loop rest x0)"

definition get_ground_at :: "LevelGenerator \<Rightarrow> real \<Rightarrow> real option" where
  "get_ground_at g x0 = ground_at_loop (gaps g) x0"

subsection \<open>Observations on a generation step\<close>

text \<open>
  What a step added: the gaps and platforms of the state after it beyond those of the state
  before it (the lists only grow at the end). A platform rescues a gap when it spans the
  gap's whole extent, is at least 40 wider than the gap, and sits at the low platform
  height.
\<close>

definition rescues :: "Platform \<Rightarrow> Gap \<Rightarrow> bool" where
  "rescues p gap =
     (Platform.world_x p \<le> start_x gap \<and>
      start_x gap + Gap.width gap \<le> Platform.world_x p + real_of_int (Platform.width p) \<and>
      Gap.width gap + 40 \<le> real_of_int (Platform.width p) \<and>
      Platform.world_y p = real_of_int PLATFORM_LOW_Y)"

definition new_gaps :: "LevelGenerator \<Rightarrow> LevelGenerator \<Rightarrow> Gap list" where
  "new_gaps g g' = drop (length (gaps g)) (gaps g')"

definition new_platforms :: "LevelGenerator \<Rightarrow> LevelGenerator \<Rightarrow> Platform list" where
  "new_platforms g g' = drop (length (platforms g)) (platforms g')"

definition grows :: "LevelGenerator \<Rightarrow> LevelGenerator \<Rightarrow> bool" where
  "grows g g' =
     (\<exists>gs ps. gaps g' = gaps g @ gs \<and> platforms g' = platforms g @ ps \<and>
        (\<forall>gap\<in>set gs. \<exists>p\<in>set ps. rescues p gap))"

definition new_bushes :: "LevelGenerator \<Rightarrow> LevelGenerator \<Rightarrow> Bush list" where
  "new_bushes g g' = drop (length (bushes g)) (bushes g')"

definition new_yarns :: "LevelGenerator \<Rightarrow> LevelGenerator \<Rightarrow> YarnSkein list" where
  "new_yarns g g' = drop (length (yarns g)) (yarns g')"

text \<open>
  An airborne pickup is a skein at one of the three heights of the "yarn floating in air"
  branch (60, 90 or 120 above the ground line); skeins on platforms sit 45 above a platform.
\<close>

definition is_airborne :: "YarnSkein \<Rightarrow> bool" where
  "is_airborne yk =
     (YarnSkein.world_y yk = real_of_int (GROUND_Y - 60) \<or>
      YarnSkein.world_y yk = real_of_int (GROUND_Y - 90) \<or>
      YarnSkein.world_y yk = real_of_int (GROUND_Y - 120))"

subsection \<open>game.py: distance milestones for life regeneration\<close>

text \<open>
  The part of the \<open>Game\<close> object the life milestones use, as \<open>start_game\<close> sets it. The sound
  played on a gained life is left out.
\<close>

record Game =
  player :: Squirrel
  stash :: int
  distance :: int
  life_milestones :: "int list"
  next_life_milestone_idx :: nat

definition start_game :: "nat \<Rightarrow> nat \<Rightarrow> nat \<Rightarrow> Game" where
  "start_game nr nj nh =
     \<lparr> player = Squirrel_init nr nj nh 100 (584 - 110),
       stash = 0, distance = 0,
       life_milestones = [1000, 2000, 4000, 8000, 16000, 32000],
       next_life_milestone_idx = 0 \<rparr>"

definition check_life_milestones :: "Game \<Rightarrow> Game" where
  "check_life_milestones gm =
     (if next_life_milestone_idx gm \<ge> length (life_milestones gm) then gm
      else (let next_milestone = life_milestones gm ! next_life_milestone_idx gm
            in if distance gm \<ge> next_milestone
               then (let (changed, p) = add_life (player gm)
                     in gm\<lparr> player := p,
                            next_life_milestone_idx := next_life_milestone_idx gm + 1 \<rparr>)
               else gm))"

text \<open>
  A run of ticks, each given by the distance it observes: \<open>update\<close> sets \<open>self.distance\<close>
  and then calls \<open>_check_life_milestones\<close>.
\<close>

fun run_ticks :: "Game \<Rightarrow> int list \<Rightarrow> Game" where
  "run_ticks gm [] = gm"
| "run_ticks gm (d # ds) = run_ticks (check_life_milestones (gm\<lparr> distance := d \<rparr>)) ds"

text \<open>
  The awards of a run, read off the states: a tick awards the milestone under the cursor
  when the check moves the cursor or changes the lives.
\<close>

fun award_trace :: "Game \<Rightarrow> int list \<Rightarrow> nat list" where
  "award_trace gm [] = []"
| "award_trace gm (d # ds) =
     (let g0 = gm\<lparr> distance := d \<rparr>;
          g1 = check_life_milestones g0
      in (if next_life_milestone_idx g1 \<noteq> next_life_milestone_idx g0
             \<or> lives (player g1) \<noteq> lives (player g0)
          then [next_life_milestone_idx g0] else [])
         @ award_trace g1 ds)"

subsection \<open>Concrete inputs\<close>

text \<open>
  A random source whose first draws open a two-tile gap at the start of a chunk and whose
  later draws (each giving \<open>random() = 1/2\<close>) spawn nothing else; and a game at distance
  1000 whose player has lost one life.
\<close>

definition R0 :: rng where
  "R0 = draws [0, 0, 0, 0, 0,
     2^52, 2^52, 2^52, 2^52, 2^52,
     2^52, 2^52, 2^52, 2^52, 2^52, 2^52, 2^52, 2^52, 2^52, 2^52,
     2^52, 2^52, 2^52, 2^52, 2^52]"

definition GM0 :: Game where
  "GM0 = (start_game 6 4 7)\<lparr> player := (Squirrel_init 6 4 7 100 474)\<lparr> lives := 2 \<rparr>,
                                  distance := 1000 \<rparr>"

section \<open>Properties\<close>

subsection \<open>Player\<close>

lemma update_animation_lives [simp]:
  "lives (update_animation dt s) = lives s" "max_lives (update_animation dt s) = max_lives s"
  by (simp_all add: update_animation_def Let_def)

lemma ramp_speed_lives [simp]:
  "lives (ramp_speed dt s) = lives s" "max_lives (ramp_speed dt s) = max_lives s"
  by (simp_all add: ramp_speed_def)

lemma tick_hit_timer_lives [simp]:
  "lives (tick_hit_timer dt s) = lives s" "max_lives (tick_hit_timer dt s) = max_lives s"
  by (simp_all add: tick_hit_timer_def)

lemma move_lives [simp]:
  "lives (move dt s) = lives s" "max_lives (move dt s) = max_lives s"
  by (simp_all add: move_def Let_def)

lemma ground_collision_lives [simp]:
  "lives (ground_collision s) = lives s" "max_lives (ground_collision s) = max_lives s"
  by (simp_all add: ground_collision_def)

lemma update_lives [simp]:
  "lives (update dt s) = lives s" "max_lives (update dt s) = max_lives s"
  by (simp_all add: update_def)

lemma update_animation_state [simp]:
  "state (update_animation dt s) = state s" "hit_timer (update_animation dt s) = hit_timer s"
  "hit_duration (update_animation dt s) = hit_duration s"
  by (simp_all add: update_animation_def Let_def)

lemma ramp_speed_state [simp]:
  "state (ramp_speed dt s) = state s" "hit_timer (ramp_speed dt s) = hit_timer s"
  "hit_duration (ramp_speed dt s) = hit_duration s"
  by (simp_all add: ramp_speed_def)

lemma move_state [simp]:
  "state (move dt s) = state s" "hit_timer (move dt s) = hit_timer s"
  "hit_duration (move dt s) = hit_duration s"
  by (simp_all add: move_def Let_def)

lemma tick_hit_timer_expired:
  "0 < hit_timer s \<Longrightarrow> hit_timer s \<le> dt \<Longrightarrow>
   state (tick_hit_timer dt s) \<noteq> STATE_HIT \<and> hit_timer (tick_hit_timer dt s) \<le> 0"
  by (simp add: tick_hit_timer_def)

lemma tick_hit_timer_hit_duration [simp]:
  "hit_duration (tick_hit_timer dt s) = hit_duration s"
  by (simp add: tick_hit_timer_def)

lemma ground_collision_hit_duration [simp]:
  "hit_duration (ground_collision s) = hit_duration s"
  by (simp add: ground_collision_def)

lemma ground_collision_not_hit:
  "state s \<noteq> STATE_HIT \<Longrightarrow> hit_timer s \<le> 0 \<Longrightarrow> state (ground_collision s) \<noteq> STATE_HIT"
  by (simp add: ground_collision_def)

lemma update_hit_duration [simp]: "hit_duration (update dt s) = hit_duration s"
  by (simp add: update_def)

text \<open>A tick at least as long as the remaining stun ends the Hit state.\<close>

lemma update_stun_expires:
  "0 < hit_timer s \<Longrightarrow> hit_timer s \<le> dt \<Longrightarrow> state (update dt s) \<noteq> STATE_HIT"
  by (simp add: update_def ground_collision_not_hit tick_hit_timer_expired)

lemma hit_obstacle_timer:
  "state s \<noteq> STATE_HIT \<Longrightarrow>
   hit_timer (snd (hit_obstacle s)) = hit_duration s \<and>
   hit_duration (snd (hit_obstacle s)) = hit_duration s"
  by (simp add: hit_obstacle_def Let_def)

lemma hit_obstacle_max_lives [simp]: "max_lives (snd (hit_obstacle s)) = max_lives s"
  by (simp add: hit_obstacle_def Let_def)

lemma hit_obstacle_lives:
  "lives (snd (hit_obstacle s)) = (if state s = STATE_HIT then lives s else lives s - 1)"
  by (simp add: hit_obstacle_def Let_def)

lemma add_life_max_lives [simp]: "max_lives (snd (add_life s)) = max_lives s"
  by (simp add: add_life_def)

lemma add_life_lives:
  "lives (snd (add_life s)) = (if lives s < max_lives s then lives s + 1 else lives s)"
  by (simp add: add_life_def)

lemma apply_call_max_lives [simp]: "max_lives (apply_call s c) = max_lives s"
  by (cases c) simp_all

lemma apply_call_lives_upper:
  "lives s \<le> max_lives s \<Longrightarrow> lives (apply_call s c) \<le> max_lives s"
  by (cases c) (simp_all add: hit_obstacle_lives add_life_lives)

lemma apply_call_lives_lower:
  "0 \<le> lives s \<Longrightarrow> c \<noteq> HitObstacle \<or> 0 < lives s \<Longrightarrow> 0 \<le> lives (apply_call s c)"
  by (cases c) (auto simp add: hit_obstacle_lives add_life_lives)

text \<open>
  C8. Invalid transition attempts are silent no-ops: \<open>hit_obstacle()\<close> on a player that is
  already in the Hit state returns (0 yarn lost, no trajectories, not dead) and returns the
  player record unchanged, every field included; \<open>jump()\<close> on a player that is not grounded
  or is Hit returns the player record unchanged.
\<close>

theorem invalid_transitions_are_noops:
  "(state s = STATE_HIT \<longrightarrow> hit_obstacle s = ((0, [], False), s)) \<and>
   (\<not> is_grounded s \<or> state s = STATE_HIT \<longrightarrow> jump s = s)"
  by (auto simp add: hit_obstacle_def jump_def)

theorem invalid_transitions_are_noops_witness:
  "state ((Squirrel_init 6 4 7 100 474)\<lparr> state := STATE_HIT, lives := 2 \<rparr>) = STATE_HIT \<and>
   hit_obstacle ((Squirrel_init 6 4 7 100 474)\<lparr> state := STATE_HIT, lives := 2 \<rparr>) =
     ((0, [], False), (Squirrel_init 6 4 7 100 474)\<lparr> state := STATE_HIT, lives := 2 \<rparr>) \<and>
   jump ((Squirrel_init 6 4 7 100 474)\<lparr> state := STATE_HIT, lives := 2 \<rparr>) =
     (Squirrel_init 6 4 7 100 474)\<lparr> state := STATE_HIT, lives := 2 \<rparr>"
  using invalid_transitions_are_noops
    [of "(Squirrel_init 6 4 7 100 474)\<lparr> state := STATE_HIT, lives := 2 \<rparr>"]
  by simp

lemma hit_obstacle_fst:
  "state s \<noteq> STATE_HIT \<Longrightarrow>
   fst (hit_obstacle s) =
     (let half = yarn_count s div 2;
          yarn_to_lose = (if half = 0 \<and> yarn_count s > 0 then 1 else half)
      in (yarn_to_lose,
          map (scatter_entry s (min yarn_to_lose 10)) [0 .. min yarn_to_lose 10 - 1],
          lives s - 1 \<le> 0))"
  by (simp add: hit_obstacle_def Let_def scatter_entry_def)

lemma hit_obstacle_yarn_count:
  "state s \<noteq> STATE_HIT \<Longrightarrow>
   yarn_count (snd (hit_obstacle s)) =
     yarn_count s - (if yarn_count s div 2 = 0 \<and> yarn_count s > 0 then 1 else yarn_count s div 2)"
  by (simp add: hit_obstacle_def Let_def)

lemma hit_then_tick:
  assumes "state s \<noteq> STATE_HIT" and "0 < hit_duration s" and "hit_duration s \<le> dt"
  shows "state (update dt (snd (hit_obstacle s))) \<noteq> STATE_HIT"
    and "lives (update dt (snd (hit_obstacle s))) = lives s - 1"
    and "hit_duration (update dt (snd (hit_obstacle s))) = hit_duration s"
proof -
  from assms show "state (update dt (snd (hit_obstacle s))) \<noteq> STATE_HIT"
    by (intro update_stun_expires) (simp_all add: hit_obstacle_timer)
  from assms(1) show "lives (update dt (snd (hit_obstacle s))) = lives s - 1"
    by (simp add: hit_obstacle_lives)
  from assms(1) show "hit_duration (update dt (snd (hit_obstacle s))) = hit_duration s"
    by (simp add: hit_obstacle_timer)
qed

text \<open>
  The parts of the yarn-loss rule that hold for every player outside the Hit state: with
  stash \<open>N > 1\<close> the hit takes \<open>max 1 (N div 2)\<close> yarn and returns \<open>min (N div 2) 10\<close>
  trajectories; with \<open>N = 1\<close> it takes exactly one and leaves none.
\<close>

lemma hit_obstacle_yarn_loss:
  assumes "state s \<noteq> STATE_HIT" and "1 < yarn_count s"
  shows "yarn_count (snd (hit_obstacle s)) = yarn_count s - max 1 (yarn_count s div 2)"
    and "length (fst (snd (fst (hit_obstacle s)))) = nat (min (yarn_count s div 2) 10)"
proof -
  from assms(2) have h: "1 \<le> yarn_count s div 2" by simp
  with assms(1) show "yarn_count (snd (hit_obstacle s)) = yarn_count s - max 1 (yarn_count s div 2)"
    by (simp add: hit_obstacle_yarn_count max_def)
  from h assms(1) show "length (fst (snd (fst (hit_obstacle s)))) = nat (min (yarn_count s div 2) 10)"
    by (simp add: hit_obstacle_fst Let_def)
qed

lemma hit_obstacle_last_yarn:
  assumes "state s \<noteq> STATE_HIT" and "yarn_count s = 1"
  shows "fst (fst (hit_obstacle s)) = 1" and "yarn_count (snd (hit_obstacle s)) = 0"
  using assms by (simp_all add: hit_obstacle_fst hit_obstacle_yarn_count Let_def)

text \<open>
  C2. A player with stash 14 that is hit outside the Hit state loses 7 yarn (stash 7 left)
  and gets 7 scatter trajectories, as the yarn-loss rule says; but the trajectory of index 5
  has launch angle \<open>-135 + 5/6 * 270 = 90\<close> degrees, so its velocity is \<open>(0, 150)\<close>: no
  horizontal component and a positive vertical one, which on the screen (y grows downward,
  gravity is positive) is straight down.
\<close>

theorem hit_obstacle_scatters_straight_down:
  "(case hit_obstacle ((Squirrel_init 6 4 7 100 474)\<lparr> yarn_count := 14 \<rparr>) of
     ((lost, positions, dead), s') \<Rightarrow>
       lost = 7 \<and> length positions = 7 \<and> yarn_count s' = 7 \<and>
       pos_velocity_x (positions ! 5) = 0 \<and> pos_velocity_y (positions ! 5) = 150)"
proof -
  let ?s = "(Squirrel_init 6 4 7 100 474)\<lparr> yarn_count := 14 \<rparr>"
  have st: "state ?s \<noteq> STATE_HIT" by (simp add: Squirrel_init_def)
  have yc: "yarn_count ?s = 14" by simp
  have a: "scatter_angle 7 5 = pi / 2" by (simp add: scatter_angle_def Let_def)
  have e: "scatter_entry ?s 7 5 =
      \<lparr> pos_x = 155, pos_y = 529, pos_velocity_x = 0, pos_velocity_y = 150 \<rparr>"
    by (simp add: scatter_entry_def a Let_def Squirrel_init_def)
  have f: "fst (hit_obstacle ?s) = (7, map (scatter_entry ?s 7) [0 .. 6], False)"
    using hit_obstacle_fst [OF st] by (simp add: Let_def Squirrel_init_def)
  have u: "[0 .. 6::int] = [0, 1, 2, 3, 4, 5, 6]" by (simp add: upto_rec1)
  have n: "map (scatter_entry ?s 7) [0 .. 6] ! 5 = scatter_entry ?s 7 5"
    unfolding u by simp
  have l: "length (map (scatter_entry ?s 7) [0 .. 6]) = 7" by simp
  have c: "yarn_count (snd (hit_obstacle ?s)) = 7"
    using hit_obstacle_yarn_count [OF st] by (simp add: yc)
  show ?thesis
    using f c n l e by (simp add: case_prod_beta)
qed

text \<open>
  C3, as stated, fails: \<open>hit_obstacle\<close> subtracts one life with no floor at 0. Four hits,
  each after the stun of the one before has run out, take a fresh player from 3 lives to -1.
\<close>

theorem lives_lower_bound_counterexample:
  "lives (run_calls (Squirrel_init 6 4 7 100 474)
     [HitObstacle, Tick 1, HitObstacle, Tick 1, HitObstacle, Tick 1, HitObstacle]) = -1"
proof -
  let ?s0 = "Squirrel_init 6 4 7 100 474"
  let ?s1 = "update 1 (snd (hit_obstacle ?s0))"
  let ?s2 = "update 1 (snd (hit_obstacle ?s1))"
  let ?s3 = "update 1 (snd (hit_obstacle ?s2))"
  have i0: "state ?s0 \<noteq> STATE_HIT" "hit_duration ?s0 = 1" "lives ?s0 = 3"
    by (simp_all add: Squirrel_init_def)
  have i1: "state ?s1 \<noteq> STATE_HIT" "hit_duration ?s1 = 1" "lives ?s1 = 2"
    using hit_then_tick [of ?s0 1] i0 by simp_all
  have i2: "state ?s2 \<noteq> STATE_HIT" "hit_duration ?s2 = 1" "lives ?s2 = 1"
    using hit_then_tick [of ?s1 1] i1 by simp_all
  have i3: "state ?s3 \<noteq> STATE_HIT" "hit_duration ?s3 = 1" "lives ?s3 = 0"
    using hit_then_tick [of ?s2 1] i2 by simp_all
  have "lives (snd (hit_obstacle ?s3)) = -1"
    using i3 by (simp add: hit_obstacle_lives)
  then show ?thesis by simp
qed

text \<open>
  C3, amended. Starting from \<open>0 \<le> lives \<le> max_lives\<close>, every sequence of
  \<open>hit_obstacle()\<close>, \<open>add_life()\<close> and \<open>update(dt)\<close> calls in which no hit is delivered to
  a player with no life left (the orchestrator ends the run when a hit reports death)
  keeps \<open>0 \<le> lives \<le> max_lives\<close>.
\<close>

theorem lives_within_bounds:
  assumes "0 \<le> lives s" and "lives s \<le> max_lives s" and "hits_while_alive s cs"
  shows "0 \<le> lives (run_calls s cs) \<and> lives (run_calls s cs) \<le> max_lives (run_calls s cs)"
  using assms
proof (induction cs arbitrary: s)
  case Nil
  then show ?case by simp
next
  case (Cons c cs)
  from Cons.prems have alive: "c \<noteq> HitObstacle \<or> 0 < lives s"
    and rest: "hits_while_alive (apply_call s c) cs" by simp_all
  have lo: "0 \<le> lives (apply_call s c)"
    using Cons.prems(1) alive by (rule apply_call_lives_lower)
  have hi: "lives (apply_call s c) \<le> max_lives (apply_call s c)"
    using apply_call_lives_upper [OF Cons.prems(2)] by simp
  show ?case using Cons.IH [OF lo hi rest] by simp
qed

theorem lives_within_bounds_witness:
  "hits_while_alive (Squirrel_init 6 4 7 100 474) [HitObstacle, AddLife] \<and>
   0 \<le> lives (run_calls (Squirrel_init 6 4 7 100 474) [HitObstacle, AddLife]) \<and>
   lives (run_calls (Squirrel_init 6 4 7 100 474) [HitObstacle, AddLife])
     \<le> max_lives (run_calls (Squirrel_init 6 4 7 100 474) [HitObstacle, AddLife])"
proof -
  have a: "0 \<le> lives (Squirrel_init 6 4 7 100 474)"
    and b: "lives (Squirrel_init 6 4 7 100 474) \<le> max_lives (Squirrel_init 6 4 7 100 474)"
    by (simp_all add: Squirrel_init_def)
  have c: "hits_while_alive (Squirrel_init 6 4 7 100 474) [HitObstacle, AddLife]"
    by (simp add: Squirrel_init_def)
  show ?thesis using lives_within_bounds [OF a b c] c by simp
qed

subsection \<open>Camera\<close>

lemma Camera_update_frame [simp]:
  "lerp_speed (Camera_update dt px pct c) = lerp_speed c"
  "base_offset (Camera_update dt px pct c) = base_offset c"
  "max_offset (Camera_update dt px pct c) = max_offset c"
  by (simp_all add: Camera_update_def Let_def)

lemma Camera_update_target:
  "target_x (Camera_update dt px pct c) =
     px - (base_offset c + (max_offset c - base_offset c) * (pct / 100))"
  by (simp add: Camera_update_def Let_def)

lemma camera_target_eq:
  "camera_target c px pct = px - (base_offset c + (max_offset c - base_offset c) * (pct / 100))"
  by (simp add: camera_target_def Camera_update_target)

lemma Camera_update_x:
  "Camera.x (Camera_update dt px pct c) =
     max 0 (Camera.x c + (camera_target c px pct - Camera.x c) * lerp_speed c * dt)"
  by (simp add: Camera_update_def Let_def camera_target_eq)

lemma Camera_ticks_frame [simp]:
  "lerp_speed (Camera_ticks n dt px pct c) = lerp_speed c"
  "base_offset (Camera_ticks n dt px pct c) = base_offset c"
  "max_offset (Camera_ticks n dt px pct c) = max_offset c"
  by (induction n) simp_all

lemma Camera_ticks_target [simp]:
  "camera_target (Camera_ticks n dt px pct c) px' pct' = camera_target c px' pct'"
  by (simp add: camera_target_eq)

lemma lerp_clamp_contracts:
  fixes a t k :: real
  assumes "0 < k" and "k < 1"
  shows "\<bar>max 0 (a + (t - a) * k) - max 0 t\<bar> \<le> (1 - k) * \<bar>a - max 0 t\<bar>"
proof -
  have fp: "max 0 (max 0 t + (t - max 0 t) * k) = max 0 t"
  proof (cases "0 \<le> t")
    case True
    then show ?thesis by (simp add: max_def)
  next
    case False
    then have "t * k < 0" using assms(1) by (simp add: mult_neg_pos)
    with False show ?thesis by (simp add: max_def)
  qed
  have "\<bar>max 0 (a + (t - a) * k) - max 0 (max 0 t + (t - max 0 t) * k)\<bar>
      \<le> \<bar>(a + (t - a) * k) - (max 0 t + (t - max 0 t) * k)\<bar>"
    by (simp add: max_def abs_if)
  also have "(a + (t - a) * k) - (max 0 t + (t - max 0 t) * k) = (1 - k) * (a - max 0 t)"
    by (simp add: algebra_simps)
  also have "\<bar>(1 - k) * (a - max 0 t)\<bar> = (1 - k) * \<bar>a - max 0 t\<bar>"
    using assms(2) by (simp add: abs_mult)
  finally show ?thesis by (simp only: fp)
qed

lemma Camera_ticks_distance:
  assumes "0 < lerp_speed c * dt" and "lerp_speed c * dt < 1"
  shows "\<bar>Camera.x (Camera_ticks n dt px pct c) - max 0 (camera_target c px pct)\<bar>
         \<le> (1 - lerp_speed c * dt) ^ n * \<bar>Camera.x c - max 0 (camera_target c px pct)\<bar>"
proof (induction n)
  case 0
  then show ?case by simp
next
  case (Suc n)
  let ?k = "lerp_speed c * dt"
  let ?t = "camera_target c px pct"
  let ?a = "Camera.x (Camera_ticks n dt px pct c)"
  have "Camera.x (Camera_ticks (Suc n) dt px pct c) = max 0 (?a + (?t - ?a) * ?k)"
    by (simp add: Camera_update_x mult.assoc)
  then have "\<bar>Camera.x (Camera_ticks (Suc n) dt px pct c) - max 0 ?t\<bar> \<le> (1 - ?k) * \<bar>?a - max 0 ?t\<bar>"
    using lerp_clamp_contracts [OF assms, of ?a ?t] by simp
  also have "\<dots> \<le> (1 - ?k) * ((1 - ?k) ^ n * \<bar>Camera.x c - max 0 ?t\<bar>)"
    using Suc.IH assms(2) by (intro mult_left_mono) simp_all
  finally show ?case by (simp add: mult.assoc)
qed

text \<open>
  C6, amended. For a fixed player position and speed percentage and a fixed \<open>dt\<close> with
  \<open>0 < lerp_speed * dt < 1\<close>: one update sets
  \<open>x := max 0 (x + (target - x) * lerp_speed * dt)\<close>; repeated updates bring \<open>x\<close> within
  any \<open>eps > 0\<close> of \<open>max 0 target\<close> (the target itself when it is not negative) after
  finitely many ticks, and stay there; and after any update \<open>x\<close> is not negative.
\<close>

theorem camera_converges:
  assumes "0 < lerp_speed c * dt" and "lerp_speed c * dt < 1"
  shows "Camera.x (Camera_update dt px pct c) =
           max 0 (Camera.x c + (camera_target c px pct - Camera.x c) * lerp_speed c * dt) \<and>
         (\<forall>eps>0. \<exists>N. \<forall>n\<ge>N.
            \<bar>Camera.x (Camera_ticks n dt px pct c) - max 0 (camera_target c px pct)\<bar> < eps) \<and>
         (\<forall>n. 0 \<le> Camera.x (Camera_ticks (Suc n) dt px pct c))"
proof (intro conjI allI impI)
  show "Camera.x (Camera_update dt px pct c) =
           max 0 (Camera.x c + (camera_target c px pct - Camera.x c) * lerp_speed c * dt)"
    by (rule Camera_update_x)
next
  fix eps :: real assume eps: "0 < eps"
  let ?k = "1 - lerp_speed c * dt"
  let ?D = "\<bar>Camera.x c - max 0 (camera_target c px pct)\<bar>"
  have k: "0 < ?k" "?k < 1" using assms by simp_all
  have "0 < eps / (?D + 1)" using eps by simp
  then obtain N where N: "?k ^ N < eps / (?D + 1)"
    using real_arch_pow_inv [OF _ k(2)] by blast
  have "\<forall>n\<ge>N. \<bar>Camera.x (Camera_ticks n dt px pct c) - max 0 (camera_target c px pct)\<bar> < eps"
  proof (intro allI impI)
    fix n assume "N \<le> n"
    then have "?k ^ n \<le> ?k ^ N" using k by (intro power_decreasing) simp_all
    then have "?k ^ n * ?D \<le> ?k ^ N * ?D" by (intro mult_right_mono) simp_all
    also have "\<dots> \<le> ?k ^ N * (?D + 1)" using k by (intro mult_left_mono) simp_all
    also have "\<dots> < eps" using N by (simp add: pos_less_divide_eq)
    finally have "?k ^ n * ?D < eps" .
    with Camera_ticks_distance [OF assms, of n px pct]
    show "\<bar>Camera.x (Camera_ticks n dt px pct c) - max 0 (camera_target c px pct)\<bar> < eps"
      by linarith
  qed
  then show "\<exists>N. \<forall>n\<ge>N. \<bar>Camera.x (Camera_ticks n dt px pct c) - max 0 (camera_target c px pct)\<bar> < eps"
    by blast
next
  fix n show "0 \<le> Camera.x (Camera_ticks (Suc n) dt px pct c)"
    by (simp add: Camera_update_x)
qed

theorem camera_converges_witness:
  "0 < lerp_speed (Camera_init 800 600) * (1/10) \<and>
   lerp_speed (Camera_init 800 600) * (1/10) < 1 \<and>
   Camera.x (Camera_update (1/10) 1000 50 (Camera_init 800 600)) = 340 \<and>
   (\<exists>N. \<forall>n\<ge>N.
      \<bar>Camera.x (Camera_ticks n (1/10) 1000 50 (Camera_init 800 600)) - 680\<bar> < 1) \<and>
   0 \<le> Camera.x (Camera_ticks (Suc 2) (1/10) 1000 50 (Camera_init 800 600))"
proof -
  have a: "0 < lerp_speed (Camera_init 800 600) * (1/10)"
    and b: "lerp_speed (Camera_init 800 600) * (1/10) < 1"
    by (simp_all add: Camera_init_def)
  have t: "camera_target (Camera_init 800 600) 1000 50 = 680"
    by (simp add: camera_target_eq Camera_init_def)
  have x0: "Camera.x (Camera_init 800 600) = 0" "lerp_speed (Camera_init 800 600) = 5"
    by (simp_all add: Camera_init_def)
  note th = camera_converges [OF a b, of 1000 50]
  from th have "Camera.x (Camera_update (1/10) 1000 50 (Camera_init 800 600)) = 340"
    by (simp add: t x0)
  moreover from th have "\<exists>N. \<forall>n\<ge>N.
      \<bar>Camera.x (Camera_ticks n (1/10) 1000 50 (Camera_init 800 600)) - 680\<bar> < 1"
    by (simp add: t)
  moreover from th have "0 \<le> Camera.x (Camera_ticks (Suc 2) (1/10) 1000 50 (Camera_init 800 600))"
    by blast
  ultimately show ?thesis using a b by blast
qed

lemma camera_start_stays: "Camera.x (Camera_ticks n (1/10) 100 0 (Camera_init 800 600)) = 0"
proof (induction n)
  case 0 show ?case by (simp add: Camera_init_def)
next
  case (Suc n)
  have t: "camera_target (Camera_init 800 600) 100 0 = -140"
    by (simp add: camera_target_eq Camera_init_def)
  have l: "lerp_speed (Camera_init 800 600) = 5" by (simp add: Camera_init_def)
  show ?case using Suc by (simp add: Camera_update_x t l)
qed

text \<open>
  C6, as stated, fails: the clamp \<open>x = max(0, x)\<close> keeps the camera at 0 while the target
  is negative. At the start of a run (screen 800 wide, player at x = 100, speed 0 percent)
  the target is \<open>100 - 240 = -140\<close>, and with \<open>dt = 1/10\<close> (so \<open>lerp_speed * dt = 1/2\<close>)
  the camera stays at 0 forever, 140 away from its target.
\<close>

theorem camera_convergence_counterexample: "\<not> (\<forall>eps>0. \<exists>N. \<forall>n\<ge>N.
   \<bar>Camera.x (Camera_ticks n (1/10) 100 0 (Camera_init 800 600))
      - camera_target (Camera_init 800 600) 100 0\<bar> < eps)"
proof
  assume "\<forall>eps>0. \<exists>N. \<forall>n\<ge>N.
   \<bar>Camera.x (Camera_ticks n (1/10) 100 0 (Camera_init 800 600))
      - camera_target (Camera_init 800 600) 100 0\<bar> < eps"
  then obtain N where "\<forall>n\<ge>N. \<bar>Camera.x (Camera_ticks n (1/10) 100 0 (Camera_init 800 600))
      - camera_target (Camera_init 800 600) 100 0\<bar> < 1"
    by (metis zero_less_one)
  then have "\<bar>Camera.x (Camera_ticks N (1/10) 100 0 (Camera_init 800 600))
      - camera_target (Camera_init 800 600) 100 0\<bar> < 1" by simp
  moreover have "camera_target (Camera_init 800 600) 100 0 = -140"
    by (simp add: camera_target_eq Camera_init_def)
  ultimately show False
    by (simp add: camera_start_stays)
qed

subsection \<open>Yarn spawning and the level generator\<close>

lemma grows_refl: "grows g g"
  by (simp add: grows_def)

lemma grows_same: "gaps g' = gaps g \<Longrightarrow> platforms g' = platforms g \<Longrightarrow> grows g g'"
  by (simp add: grows_def)

lemma grows_platform: "gaps g' = gaps g \<Longrightarrow> platforms g' = platforms g @ ps \<Longrightarrow> grows g g'"
  by (simp add: grows_def)

lemma grows_trans:
  assumes "grows g1 g2" and "grows g2 g3"
  shows "grows g1 g3"
proof -
  from assms(1) obtain gs ps where a: "gaps g2 = gaps g1 @ gs" "platforms g2 = platforms g1 @ ps"
    "\<forall>gap\<in>set gs. \<exists>p\<in>set ps. rescues p gap" unfolding grows_def by blast
  from assms(2) obtain gs' ps' where b: "gaps g3 = gaps g2 @ gs'" "platforms g3 = platforms g2 @ ps'"
    "\<forall>gap\<in>set gs'. \<exists>p\<in>set ps'. rescues p gap" unfolding grows_def by blast
  have "gaps g3 = gaps g1 @ (gs @ gs')" "platforms g3 = platforms g1 @ (ps @ ps')"
    using a b by simp_all
  moreover have "\<forall>gap\<in>set (gs @ gs'). \<exists>p\<in>set (ps @ ps'). rescues p gap"
    using a(3) b(3) by auto
  ultimately show ?thesis unfolding grows_def by blast
qed

lemma grows_new:
  assumes "grows g g'"
  shows "\<forall>gap\<in>set (new_gaps g g'). \<exists>p\<in>set (new_platforms g g'). rescues p gap"
  using assms unfolding grows_def new_gaps_def new_platforms_def by auto

lemma append_yarn_frame [simp]:
  "gaps (append_yarn yarn g) = gaps g" "platforms (append_yarn yarn g) = platforms g"
  "bushes (append_yarn yarn g) = bushes g"
  by (simp_all add: append_yarn_def split: option.splits)

lemma tier_of_basic: "tier_of ''basic'' = Inr (snd (YARN_TIERS ! 0))"
  by (simp add: tier_of_def YARN_TIERS_def)

lemma tier_of_rare: "tier_of ''rare'' = Inr (snd (YARN_TIERS ! 3))"
  by (simp add: tier_of_def YARN_TIERS_def)

lemma get_available_colors_total:
  "\<exists>cs. get_available_colors n = Inr cs \<and> cs \<noteq> []"
  by (simp add: get_available_colors_def Let_def tier_of_basic YARN_TIERS_def)

lemma YarnSkein_init_total: "\<exists>yk r'. YarnSkein_init x0 y0 c p r = (yk, r')"
  by simp

lemma spawn_yarn_total: "\<exists>yk r'. spawn_yarn x0 y0 n r = Inr (Some yk, r')"
proof -
  obtain cs where cs: "get_available_colors n = Inr cs" "cs \<noteq> []"
    using get_available_colors_total by blast
  show ?thesis
    by (simp add: spawn_yarn_def tier_of_rare YARN_TIERS_def cs random_choice_def Let_def
        split: prod.splits)
qed

lemma rescue_platform_rescues:
  "rescues (Platform_init (real_of_int (sx - 10)) (real_of_int PLATFORM_LOW_Y) (w + 40))
     (Gap_init (real_of_int sx) (real_of_int w) (real_of_int GROUND_Y))"
  by (simp add: rescues_def Platform_init_def Gap_init_def)

lemma create_gap_grows:
  "\<exists>n g' gp' r'. create_gap tile_positions i (g, gp, r) = Inr (n, g', gp', r') \<and> grows g g'"
proof -
  obtain num_tiles r2 where rr: "random_randint 2 3 r = (num_tiles, r2)" by force
  obtain gp' n where m:
    "mark_gap_tiles tile_positions i [0 ..< nat num_tiles] (gp, 0) = (gp', n)" by force
  let ?sx = "tile_positions ! i"
  let ?w = "int n * GROUND_TILE_SIZE"
  let ?gap = "Gap_init (real_of_int ?sx) (real_of_int ?w) (real_of_int GROUND_Y)"
  let ?p = "Platform_init (real_of_int (?sx - 10)) (real_of_int PLATFORM_LOW_Y) (?w + 40)"
  let ?g2 = "g\<lparr> gaps := gaps g @ [?gap], platforms := platforms g @ [?p],
                last_platform_x := ?sx, last_platform_y := PLATFORM_LOW_Y \<rparr>"
  obtain yk r3 where sp: "spawn_yarn (real_of_int (?sx + ?w div 2))
      (real_of_int (PLATFORM_LOW_Y - 45)) (getattr_current_stash ?g2) r2 = Inr (Some yk, r3)"
    using spawn_yarn_total by blast
  have res: "rescues ?p ?gap"
    by (rule rescue_platform_rescues)
  have gr: "grows g (append_yarn (Some yk) ?g2)"
    unfolding grows_def
    using res by (intro exI [of _ "[?gap]"] exI [of _ "[?p]"]) simp
  have "create_gap tile_positions i (g, gp, r) = Inr (n, append_yarn (Some yk) ?g2, gp', r3)"
    using sp by (simp add: create_gap_def rr m Let_def getattr_current_stash_def)
  with gr show ?thesis by blast
qed

lemma gap_loop_grows:
  "\<exists>g' gp' r'. gap_loop tile_positions chance i st = Inr (g', gp', r') \<and> grows (fst st) g'"
proof (induction tile_positions chance i st rule: gap_loop.induct)
  case (1 tile_positions chance i g gap_positions r)
  show ?case
  proof (cases "i < length tile_positions")
    case False
    then show ?thesis by (simp add: gap_loop.simps grows_refl)
  next
    case True
    obtain u r1 where ur: "random_random r = (u, r1)" by force
    show ?thesis
    proof (cases "u < chance \<and> i + 1 < length tile_positions")
      case gap: True
      obtain n g1 gp1 r2 where cg:
        "create_gap tile_positions i (g, gap_positions, r1) = Inr (n, g1, gp1, r2)"
        and g1: "grows g g1"
        using create_gap_grows by blast
      from "1.IH"(1) [OF True refl ur [symmetric] gap cg refl]
      obtain g' gp' r' where rec:
        "gap_loop tile_positions chance (i + n) (g1, gp1, r2) = Inr (g', gp', r')"
        and g': "grows g1 g'" by auto
      have "gap_loop tile_positions chance i (g, gap_positions, r) = Inr (g', gp', r')"
        by (subst gap_loop.simps)
           (simp only: True if_True ur prod.case Let_def gap cg sum.case rec simp_thms)
      moreover have "grows g g'" using g1 g' by (rule grows_trans)
      ultimately show ?thesis by simp
    next
      case nogap: False
      from "1.IH"(2) [OF True refl ur [symmetric] nogap]
      obtain g' gp' r' where rec:
        "gap_loop tile_positions chance (i + 1) (g, gap_positions, r1) = Inr (g', gp', r')"
        and g': "grows g g'" by auto
      have "gap_loop tile_positions chance i (g, gap_positions, r) = Inr (g', gp', r')"
        by (subst gap_loop.simps)
           (simp only: True if_True ur prod.case Let_def nogap if_False rec simp_thms)
      with g' show ?thesis by simp
    qed
  qed
qed

lemma roll_bush_grows:
  "\<exists>g' r'. roll_bush tile_x d (g, r) = (g', r') \<and> gaps g' = gaps g \<and> platforms g' = platforms g"
  by (simp add: roll_bush_def Let_def split: prod.splits)

lemma roll_platform_or_yarn_grows:
  "\<exists>g' r'. roll_platform_or_yarn tile_x d (g, r) = Inr (g', r') \<and> grows g g'"
proof -
  obtain u r1 where ur: "random_random r = (u, r1)" by force
  show ?thesis
  proof (cases "u < platform_chance d \<and> tile_x - last_platform_x g > PLATFORM_MIN_SPACING")
    case True
    obtain py r2 where c1: "random_choice (platform_heights d) r1 = Inr (py, r2)"
      by (simp add: random_choice_def platform_heights_def)
    obtain pw r3 where c2: "random_choice [96, 128, 160::int] r2 = Inr (pw, r3)"
      by (simp add: random_choice_def)
    let ?g1 = "g\<lparr> platforms := platforms g @
                  [Platform_init (real_of_int tile_x) (real_of_int py) pw],
                last_platform_x := tile_x, last_platform_y := py \<rparr>"
    have gr: "grows g ?g1" by (rule grows_platform) simp_all
    obtain u2 r4 where u2: "random_random r3 = (u2, r4)" by force
    obtain yk r5 where sp: "spawn_yarn (real_of_int (tile_x + pw div 2 - 16))
        (real_of_int (py - 45)) (getattr_current_stash ?g1) r4 = Inr (Some yk, r5)"
      using spawn_yarn_total by blast
    have gr2: "grows g (append_yarn (Some yk) ?g1)"
      by (rule grows_platform) simp_all
    have eq: "roll_platform_or_yarn tile_x d (g, r) =
        (if u2 < 0.7 then Inr (append_yarn (Some yk) ?g1, r5) else Inr (?g1, r4))"
      unfolding roll_platform_or_yarn_def
      by (simp only: prod.case Let_def ur True if_True c1 c2 sum.case u2 sp simp_thms)
    show ?thesis
    proof (cases "u2 < 0.7")
      case yes: True
      from eq have "roll_platform_or_yarn tile_x d (g, r) = Inr (append_yarn (Some yk) ?g1, r5)"
        by (simp only: yes if_True)
      with gr2 show ?thesis by blast
    next
      case no: False
      from eq have "roll_platform_or_yarn tile_x d (g, r) = Inr (?g1, r4)"
        by (simp only: no if_False)
      with gr show ?thesis by blast
    qed
  next
    case False
    let ?stash = "getattr_current_stash g"
    obtain u2 r2 where u2: "random_random r1 = (u2, r2)" by force
    obtain k r3 where k: "random_randint 10 50 r2 = (k, r3)" by force
    obtain h r4 where c: "random_choice [60, 90, 120::int] r3 = Inr (h, r4)"
      by (simp add: random_choice_def)
    obtain yk r5 where sp: "spawn_yarn (real_of_int (tile_x + k)) (real_of_int (GROUND_Y - h))
        ?stash r4 = Inr (Some yk, r5)"
      using spawn_yarn_total by blast
    have eq: "roll_platform_or_yarn tile_x d (g, r) =
        (if u2 < yarn_chance ?stash
         then Inr (append_yarn (Some yk) g, r5) else Inr (g, r2))"
      unfolding roll_platform_or_yarn_def
      by (simp only: prod.case Let_def ur False if_False u2 k c sum.case sp simp_thms)
    have gy: "grows g (append_yarn (Some yk) g)" by (rule grows_same) simp_all
    show ?thesis
    proof (cases "u2 < yarn_chance ?stash")
      case yes: True
      from eq have "roll_platform_or_yarn tile_x d (g, r) = Inr (append_yarn (Some yk) g, r5)"
        by (simp only: yes if_True)
      with gy show ?thesis by blast
    next
      case no: False
      from eq have "roll_platform_or_yarn tile_x d (g, r) = Inr (g, r2)"
        by (simp only: no if_False)
      with grows_refl show ?thesis by blast
    qed
  qed
qed

lemma place_tile_grows:
  "\<exists>g' r'. place_tile tile_positions gap_positions d idx (g, r) = Inr (g', r') \<and> grows g g'"
proof (cases "tile_positions ! idx \<in> gap_positions")
  case True
  then show ?thesis by (simp add: place_tile_def grows_refl)
next
  case False
  let ?tile_x = "tile_positions ! idx"
  let ?left = "(case (if idx > 0 then Some (tile_positions ! (idx - 1)) else None) of
                  None \<Rightarrow> False | Some p \<Rightarrow> p \<in> gap_positions)"
  let ?right = "(case (if idx < length tile_positions - 1
                       then Some (tile_positions ! (idx + 1)) else None) of
                  None \<Rightarrow> False | Some n \<Rightarrow> n \<in> gap_positions)"
  obtain ground r1 where gi:
    "Ground_init ?tile_x GROUND_Y ?left ?right (tileset_loaded g) r = (ground, r1)" by force
  let ?g1 = "g\<lparr> ground_tiles := ground_tiles g @ [ground] \<rparr>"
  obtain g2 r2 where rb: "roll_bush ?tile_x d (?g1, r1) = (g2, r2)"
    and f2: "gaps g2 = gaps ?g1" "platforms g2 = platforms ?g1"
    using roll_bush_grows [of ?tile_x d ?g1 r1] by blast
  obtain g' r' where rp: "roll_platform_or_yarn ?tile_x d (g2, r2) = Inr (g', r')"
    and gr: "grows g2 g'"
    using roll_platform_or_yarn_grows by blast
  have "grows g g2" using f2 by (intro grows_same) simp_all
  then have "grows g g'" using gr by (rule grows_trans)
  moreover have "place_tile tile_positions gap_positions d idx (g, r) = Inr (g', r')"
    unfolding place_tile_def
    by (simp only: prod.case Let_def False if_False gi rb rp simp_thms)
  ultimately show ?thesis by blast
qed

lemma place_tiles_grows:
  "\<exists>g' r'. place_tiles tile_positions gap_positions d idxs (g, r) = Inr (g', r') \<and> grows g g'"
proof (induction idxs arbitrary: g r)
  case Nil
  then show ?case by (simp add: grows_refl)
next
  case (Cons idx idxs)
  obtain g1 r1 where a: "place_tile tile_positions gap_positions d idx (g, r) = Inr (g1, r1)"
    and g1: "grows g g1" using place_tile_grows by blast
  obtain g' r' where b: "place_tiles tile_positions gap_positions d idxs (g1, r1) = Inr (g', r')"
    and g': "grows g1 g'" using Cons.IH by blast
  have "place_tiles tile_positions gap_positions d (idx # idxs) (g, r) = Inr (g', r')"
    using a b by simp
  moreover have "grows g g'" using g1 g' by (rule grows_trans)
  ultimately show ?case by blast
qed

lemma generate_chunk_grows:
  "\<exists>g' r'. generate_chunk start_x0 d (g, r) = Inr (g', r') \<and> grows g g'"
proof -
  let ?tp = "tile_positions_loop start_x0 (start_x0 + CHUNK_WIDTH) []"
  let ?gc = "gap_chance g d"
  obtain g1 gp r1 where a: "gap_loop ?tp ?gc 0 (g, {}, r) = Inr (g1, gp, r1)"
    and g1: "grows g g1" using gap_loop_grows [of ?tp ?gc 0 "(g, {}, r)"] by auto
  obtain g' r' where b: "place_tiles ?tp gp d [0 ..< length ?tp] (g1, r1) = Inr (g', r')"
    and g': "grows g1 g'" using place_tiles_grows by blast
  have "generate_chunk start_x0 d (g, r) = Inr (g', r')"
    unfolding generate_chunk_def
    by (simp only: prod.case Let_def a sum.case b simp_thms)
  moreover have "grows g g'" using g1 g' by (rule grows_trans)
  ultimately show ?thesis by blast
qed

text \<open>
  C1. For every generator state (any difficulty), every start position, every distance and
  every random source, \<open>_generate_chunk\<close> returns normally, and every gap it added has a
  platform added by the same call that starts at or before the gap, ends at or after it, is
  at least the gap width plus 40 wide, and sits at the low platform height.
\<close>

theorem generate_chunk_rescues_every_gap:
  "\<exists>g' r'. generate_chunk start_x0 d (g, r) = Inr (g', r') \<and>
     (\<forall>gap\<in>set (new_gaps g g'). \<exists>p\<in>set (new_platforms g g'). rescues p gap)"
  using generate_chunk_grows [of start_x0 d g r] grows_new by blast

text \<open>
  C9. For every position, every stash value (negative ones included) and every random
  source, \<open>spawn_yarn\<close> returns normally with a skein, never \<open>None\<close> and never an
  exception; and \<open>get_available_colors\<close> returns a non-empty list for every stash value, so
  the \<open>random.choice\<close> in \<open>spawn_yarn\<close> always has something to choose from.
\<close>

theorem spawn_yarn_never_none:
  "(\<exists>yk r'. spawn_yarn x0 y0 n r = Inr (Some yk, r')) \<and>
   (\<exists>cs. get_available_colors n = Inr cs \<and> cs \<noteq> [])"
  using spawn_yarn_total [of x0 y0 n r] get_available_colors_total [of n] by blast

subsection \<open>Evaluating the generator on given draws\<close>

lemma draws_simps [simp]:
  "draws (n # ns) 0 = n" "draws [] 0 = 0"
  "rng_tail (draws (n # ns)) = draws ns" "rng_tail (draws []) = draws []"
  by (auto simp add: draws_def rng_tail_def fun_eq_iff)

lemma rng_drop_0 [simp]: "rng_drop 0 r = r"
  by (simp add: rng_drop_def)

lemma random_random_draws [simp]:
  "random_random (draws (n # ns)) = (real (n mod 2 ^ 53) / 2 ^ 53, draws ns)"
  "random_random (draws []) = (0, draws [])"
  by (simp_all add: random_random_def)

lemma random_randint_draws [simp]:
  "random_randint a b (draws (n # ns)) = (a + int n mod (b - a + 1), draws ns)"
  "random_randint a b (draws []) = (a, draws [])"
  by (simp_all add: random_randint_def)

lemma random_choice_draws [simp]:
  "xs \<noteq> [] \<Longrightarrow> random_choice xs (draws (n # ns)) = Inr (xs ! (n mod length xs), draws ns)"
  "xs \<noteq> [] \<Longrightarrow> random_choice xs (draws []) = Inr (xs ! 0, draws [])"
  by (simp_all add: random_choice_def)

lemma tile_positions_1200:
  "tile_positions_loop 1200 (1200 + CHUNK_WIDTH) [] = [1200, 1264, 1328, 1392, 1456, 1520, 1584]"
  by (simp add: tile_positions_loop.simps CHUNK_WIDTH_def GROUND_TILE_SIZE_def)

lemma spawn_rainbow:
  "spawn_yarn x0 y0 n (draws []) = Inr (Some (fst (YarnSkein_init x0 y0 ''rainbow'' 5 (draws []))), draws [])"
  by (simp add: spawn_yarn_def tier_of_rare YARN_TIERS_def YarnSkein_init_def Let_def)

subsection \<open>What a tile column spawns\<close>

lemma random_choice_mem: "random_choice xs r = Inr (v, r') \<Longrightarrow> v \<in> set xs"
  by (auto simp add: random_choice_def split: if_splits)

lemma spawn_yarn_position:
  assumes "spawn_yarn x0 y0 n r = Inr (Some yk, r')"
  shows "YarnSkein.world_x yk = x0 \<and> YarnSkein.world_y yk = y0"
  using assms
  by (auto simp add: spawn_yarn_def YarnSkein_init_def Let_def
      split: prod.splits sum.splits option.splits if_splits)

lemma append_yarn_Some_yarns [simp]:
  "yarns (append_yarn (Some yk) g) = yarns g @ [yk]"
  "ground_tiles (append_yarn yarn g) = ground_tiles g"
  by (simp_all add: append_yarn_def split: option.splits)

lemma roll_bush_effect:
  assumes "roll_bush tile_x d (g, r) = (g', r')"
  shows "platforms g' = platforms g \<and> yarns g' = yarns g \<and> length (bushes g') \<le> length (bushes g) + 1
         \<and> length (bushes g) \<le> length (bushes g')"
  using assms by (auto simp add: roll_bush_def Let_def split: prod.splits if_splits)

lemma platform_heights_cases:
  "py \<in> set (platform_heights d) \<Longrightarrow> py = 514 \<or> py = 474 \<or> py = 434"
  by (auto simp add: platform_heights_def PLATFORM_LOW_Y_def PLATFORM_MID_Y_def PLATFORM_HIGH_Y_def
      split: if_splits)

lemma platform_yarn_not_airborne:
  assumes "py \<in> set (platform_heights d)" and "YarnSkein.world_y yk = real_of_int (py - 45)"
  shows "\<not> is_airborne yk"
  using platform_heights_cases [OF assms(1)] assms(2)
  by (auto simp add: is_airborne_def GROUND_Y_def)

lemma roll_platform_or_yarn_effect:
  assumes "roll_platform_or_yarn tile_x d (g, r) = Inr (g', r')"
  shows "bushes g' = bushes g \<and>
         ((platforms g' = platforms g \<and> (\<exists>ys. yarns g' = yarns g @ ys \<and> length ys \<le> 1)) \<or>
          (\<exists>p ys. platforms g' = platforms g @ [p] \<and> yarns g' = yarns g @ ys \<and> length ys \<le> 1 \<and>
                  (\<forall>yk\<in>set ys. \<not> is_airborne yk)))"
proof -
  obtain u r1 where ur: "random_random r = (u, r1)" by force
  show ?thesis
  proof (cases "u < platform_chance d \<and> tile_x - last_platform_x g > PLATFORM_MIN_SPACING")
    case True
    obtain py r2 where c1: "random_choice (platform_heights d) r1 = Inr (py, r2)"
      by (simp add: random_choice_def platform_heights_def)
    have py: "py \<in> set (platform_heights d)" using c1 by (rule random_choice_mem)
    obtain pw r3 where c2: "random_choice [96, 128, 160::int] r2 = Inr (pw, r3)"
      by (simp add: random_choice_def)
    let ?p = "Platform_init (real_of_int tile_x) (real_of_int py) pw"
    let ?g1 = "g\<lparr> platforms := platforms g @ [?p],
                last_platform_x := tile_x, last_platform_y := py \<rparr>"
    obtain u2 r4 where u2: "random_random r3 = (u2, r4)" by force
    obtain yk r5 where sp: "spawn_yarn (real_of_int (tile_x + pw div 2 - 16))
        (real_of_int (py - 45)) (getattr_current_stash ?g1) r4 = Inr (Some yk, r5)"
      using spawn_yarn_total by blast
    have na: "\<not> is_airborne yk"
      using py spawn_yarn_position [OF sp] by (intro platform_yarn_not_airborne) simp_all
    have eq: "roll_platform_or_yarn tile_x d (g, r) =
        (if u2 < 0.7 then Inr (append_yarn (Some yk) ?g1, r5) else Inr (?g1, r4))"
      unfolding roll_platform_or_yarn_def
      by (simp only: prod.case Let_def ur True if_True c1 c2 sum.case u2 sp simp_thms)
    show ?thesis
    proof (cases "u2 < 0.7")
      case yes: True
      from eq assms have g': "g' = append_yarn (Some yk) ?g1" by (simp only: yes if_True) simp
      have "platforms g' = platforms g @ [?p]" "yarns g' = yarns g @ [yk]" "bushes g' = bushes g"
        unfolding g' by simp_all
      with na show ?thesis by auto
    next
      case no: False
      from eq assms have g': "g' = ?g1" by (simp only: no if_False) simp
      have "platforms g' = platforms g @ [?p]" "yarns g' = yarns g @ []" "bushes g' = bushes g"
        unfolding g' by simp_all
      then show ?thesis by (metis empty_iff le0 list.set(1) list.size(3))
    qed
  next
    case False
    let ?stash = "getattr_current_stash g"
    obtain u2 r2 where u2: "random_random r1 = (u2, r2)" by force
    obtain k r3 where k: "random_randint 10 50 r2 = (k, r3)" by force
    obtain h r4 where c: "random_choice [60, 90, 120::int] r3 = Inr (h, r4)"
      by (simp add: random_choice_def)
    obtain yk r5 where sp: "spawn_yarn (real_of_int (tile_x + k)) (real_of_int (GROUND_Y - h))
        ?stash r4 = Inr (Some yk, r5)"
      using spawn_yarn_total by blast
    have eq: "roll_platform_or_yarn tile_x d (g, r) =
        (if u2 < yarn_chance ?stash
         then Inr (append_yarn (Some yk) g, r5) else Inr (g, r2))"
      unfolding roll_platform_or_yarn_def
      by (simp only: prod.case Let_def ur False if_False u2 k c sum.case sp simp_thms)
    show ?thesis
    proof (cases "u2 < yarn_chance ?stash")
      case yes: True
      from eq assms have g': "g' = append_yarn (Some yk) g" by (simp only: yes if_True) simp
      have "platforms g' = platforms g" "yarns g' = yarns g @ [yk]" "bushes g' = bushes g"
        unfolding g' by simp_all
      then show ?thesis by auto
    next
      case no: False
      from eq assms have g': "g' = g" by (simp only: no if_False) simp
      show ?thesis unfolding g' by simp
    qed
  qed
qed

text \<open>
  C4, amended. For every tile column that is not part of a gap, the column body adds at
  most one bush, at most one platform and at most one pickup, and never both a platform and
  an airborne pickup: the airborne pickup is rolled only in the \<open>else\<close> branch of the
  platform roll. The bush roll is made before and independently of the two.
\<close>

theorem column_platform_excludes_airborne_pickup:
  assumes "tile_positions ! idx \<notin> gap_positions"
    and "place_tile tile_positions gap_positions d idx (g, r) = Inr (g', r')"
  shows "length (new_bushes g g') \<le> 1 \<and> length (new_platforms g g') \<le> 1 \<and>
         length (new_yarns g g') \<le> 1 \<and>
         (new_platforms g g' = [] \<or> (\<forall>yk\<in>set (new_yarns g g'). \<not> is_airborne yk))"
proof -
  let ?tile_x = "tile_positions ! idx"
  let ?left = "(case (if idx > 0 then Some (tile_positions ! (idx - 1)) else None) of
                  None \<Rightarrow> False | Some p \<Rightarrow> p \<in> gap_positions)"
  let ?right = "(case (if idx < length tile_positions - 1
                       then Some (tile_positions ! (idx + 1)) else None) of
                  None \<Rightarrow> False | Some n \<Rightarrow> n \<in> gap_positions)"
  obtain ground r1 where gi:
    "Ground_init ?tile_x GROUND_Y ?left ?right (tileset_loaded g) r = (ground, r1)" by force
  let ?g1 = "g\<lparr> ground_tiles := ground_tiles g @ [ground] \<rparr>"
  obtain g2 r2 where rb: "roll_bush ?tile_x d (?g1, r1) = (g2, r2)" by force
  have "place_tile tile_positions gap_positions d idx (g, r) =
          roll_platform_or_yarn ?tile_x d (g2, r2)"
    unfolding place_tile_def
    by (simp only: prod.case Let_def assms(1) if_False gi rb simp_thms)
  with assms(2) have rp: "roll_platform_or_yarn ?tile_x d (g2, r2) = Inr (g', r')" by simp
  from roll_bush_effect [OF rb]
  have b: "platforms g2 = platforms g" "yarns g2 = yarns g"
    "length (bushes g2) \<le> length (bushes g) + 1" "length (bushes g) \<le> length (bushes g2)"
    by simp_all
  from roll_platform_or_yarn_effect [OF rp]
  have e: "bushes g' = bushes g2"
    and c: "(platforms g' = platforms g2 \<and> (\<exists>ys. yarns g' = yarns g2 @ ys \<and> length ys \<le> 1)) \<or>
          (\<exists>p ys. platforms g' = platforms g2 @ [p] \<and> yarns g' = yarns g2 @ ys \<and> length ys \<le> 1 \<and>
                  (\<forall>yk\<in>set ys. \<not> is_airborne yk))"
    by simp_all
  have nb: "length (new_bushes g g') \<le> 1"
    using b e by (simp add: new_bushes_def)
  from c show ?thesis
  proof
    assume "platforms g' = platforms g2 \<and> (\<exists>ys. yarns g' = yarns g2 @ ys \<and> length ys \<le> 1)"
    then obtain ys where "platforms g' = platforms g" "yarns g' = yarns g @ ys" "length ys \<le> 1"
      using b by auto
    with nb show ?thesis by (simp add: new_platforms_def new_yarns_def)
  next
    assume "\<exists>p ys. platforms g' = platforms g2 @ [p] \<and> yarns g' = yarns g2 @ ys \<and> length ys \<le> 1 \<and>
                  (\<forall>yk\<in>set ys. \<not> is_airborne yk)"
    then obtain p ys where "platforms g' = platforms g @ [p]" "yarns g' = yarns g @ ys"
      "length ys \<le> 1" "\<forall>yk\<in>set ys. \<not> is_airborne yk"
      using b by auto
    with nb show ?thesis by (simp add: new_platforms_def new_yarns_def)
  qed
qed

lemma place_tile_at_1200:
  "place_tile [1200, 1264, 1328, 1392, 1456, 1520, 1584] {} 90 0
      (LevelGenerator_init False, draws []) =
   Inr ((LevelGenerator_init False)
          \<lparr> ground_tiles := [fst (Ground_init 1200 584 False False False (draws []))],
            platforms := [Platform_init 1200 514 96],
            bushes := [Bush_init 1210 548],
            yarns := [fst (YarnSkein_init 1232 469 ''rainbow'' 5 (draws []))],
            last_platform_x := 1200, last_platform_y := 514 \<rparr>, draws [])"
  by (simp add: place_tile_def Ground_init_def roll_bush_def roll_platform_or_yarn_def
      bush_chance_def platform_chance_def platform_heights_def LevelGenerator_init_def
      GROUND_Y_def PLATFORM_LOW_Y_def PLATFORM_MID_Y_def PLATFORM_MIN_SPACING_def
      getattr_current_stash_def spawn_rainbow append_yarn_def Let_def)

theorem column_platform_excludes_airborne_pickup_witness:
  "[1200, 1264, 1328, 1392, 1456, 1520, 1584] ! 0 \<notin> ({} :: int set) \<and>
   (\<exists>g' r'. place_tile [1200, 1264, 1328, 1392, 1456, 1520, 1584] {} 90 0
               (LevelGenerator_init False, draws []) = Inr (g', r') \<and>
      new_platforms (LevelGenerator_init False) g' = [Platform_init 1200 514 96] \<and>
      length (new_yarns (LevelGenerator_init False) g') = 1 \<and>
      \<not> is_airborne (hd (new_yarns (LevelGenerator_init False) g')))"
proof -
  let ?tp = "[1200, 1264, 1328, 1392, 1456, 1520, 1584] :: int list"
  let ?g = "LevelGenerator_init False"
  let ?g' = "?g\<lparr> ground_tiles := [fst (Ground_init 1200 584 False False False (draws []))],
            platforms := [Platform_init 1200 514 96],
            bushes := [Bush_init 1210 548],
            yarns := [fst (YarnSkein_init 1232 469 ''rainbow'' 5 (draws []))],
            last_platform_x := 1200, last_platform_y := 514 \<rparr>"
  have a: "?tp ! 0 \<notin> ({} :: int set)" by simp
  have np: "new_platforms ?g ?g' = [Platform_init 1200 514 96]"
    by (simp add: new_platforms_def LevelGenerator_init_def)
  have ny: "new_yarns ?g ?g' = [fst (YarnSkein_init 1232 469 ''rainbow'' 5 (draws []))]"
    by (simp add: new_yarns_def LevelGenerator_init_def)
  from column_platform_excludes_airborne_pickup [OF a place_tile_at_1200]
  have "new_platforms ?g ?g' = [] \<or> (\<forall>yk\<in>set (new_yarns ?g ?g'). \<not> is_airborne yk)"
    by blast
  with np ny have "\<not> is_airborne (hd (new_yarns ?g ?g'))" by simp
  with np ny place_tile_at_1200 a show ?thesis by simp
qed

text \<open>
  C4, as stated, fails: the bush roll is not exclusive with the other two. In the first
  column of the chunk at 1200, at distance 90 on a fresh generator with every raw draw 0,
  the column gets a bush (at 1210) and a platform (at 1200) together.
\<close>

theorem column_spawns_bush_and_platform:
  "(case place_tile [1200, 1264, 1328, 1392, 1456, 1520, 1584] {} 90 0
            (LevelGenerator_init False, draws []) of
      Inl e \<Rightarrow> False
    | Inr (g', r') \<Rightarrow>
        new_bushes (LevelGenerator_init False) g' = [Bush_init 1210 548] \<and>
        new_platforms (LevelGenerator_init False) g' = [Platform_init 1200 514 96])"
  by (simp only: place_tile_at_1200 sum.case prod.case)
     (simp add: new_bushes_def new_platforms_def LevelGenerator_init_def)

subsection \<open>A generated chunk with a gap; life milestones; gap membership\<close>

lemma upt_0_2: "[0 ..< 2] = [0, Suc 0]"
  by (simp add: upt_rec)

lemma upt_0_7: "[0 ..< 7] = [0, 1, 2, 3, 4, 5, 6]"
  by (simp add: upt_rec)

lemma chunk_with_gap:
  "(case generate_chunk 1200 500 (LevelGenerator_init False, R0) of
      Inl e \<Rightarrow> False
    | Inr (g', r') \<Rightarrow>
        gaps g' = [Gap_init 1200 128 584] \<and>
        platforms g' = [Platform_init 1190 514 168] \<and>
        map Ground.world_x (ground_tiles g') = [1328, 1392, 1456, 1520, 1584] \<and>
        bushes g' = [])"
  by (simp add: generate_chunk_def tile_positions_1200 upt_0_7 gap_loop.simps R0_def gap_chance_def
       create_gap_def LevelGenerator_init_def spawn_yarn_def tier_of_rare YARN_TIERS_def
       YarnSkein_init_def Let_def GROUND_TILE_SIZE_def GROUND_Y_def PLATFORM_LOW_Y_def
       getattr_current_stash_def append_yarn_def upt_0_2
       place_tile_def Ground_init_def roll_bush_def roll_platform_or_yarn_def
       bush_chance_def platform_chance_def yarn_chance_def)

lemma check_triggered:
  assumes "next_life_milestone_idx gm < length (life_milestones gm)"
    and "life_milestones gm ! next_life_milestone_idx gm \<le> distance gm"
  shows "next_life_milestone_idx (check_life_milestones gm) = next_life_milestone_idx gm + 1"
    and "lives (player (check_life_milestones gm)) =
           (if lives (player gm) < max_lives (player gm)
            then lives (player gm) + 1 else lives (player gm))"
    and "life_milestones (check_life_milestones gm) = life_milestones gm"
  using assms by (simp_all add: check_life_milestones_def Let_def add_life_def split: prod.splits)

lemma check_not_triggered:
  assumes "\<not> (next_life_milestone_idx gm < length (life_milestones gm) \<and>
             life_milestones gm ! next_life_milestone_idx gm \<le> distance gm)"
  shows "check_life_milestones gm = gm"
  using assms by (auto simp add: check_life_milestones_def Let_def)

lemma check_idx_cases:
  "(check_life_milestones gm = gm) \<or>
   (next_life_milestone_idx (check_life_milestones gm) = next_life_milestone_idx gm + 1)"
  using check_triggered(1) [of gm] check_not_triggered [of gm] by blast

lemma award_trace_lower:
  "\<forall>k\<in>set (award_trace gm ds). next_life_milestone_idx gm \<le> k"
proof (induction ds arbitrary: gm)
  case Nil
  then show ?case by simp
next
  case (Cons d ds)
  let ?g0 = "gm\<lparr> distance := d \<rparr>"
  let ?g1 = "check_life_milestones ?g0"
  have "next_life_milestone_idx gm \<le> next_life_milestone_idx ?g1"
    using check_idx_cases [of ?g0] by auto
  with Cons.IH [of ?g1] show ?case by (auto simp add: Let_def)
qed

lemma award_trace_increasing: "sorted_wrt (<) (award_trace gm ds)"
proof (induction ds arbitrary: gm)
  case Nil
  then show ?case by simp
next
  case (Cons d ds)
  let ?g0 = "gm\<lparr> distance := d \<rparr>"
  let ?g1 = "check_life_milestones ?g0"
  show ?case
  proof (cases "?g1 = ?g0")
    case True
    with Cons.IH [of ?g0] show ?thesis by (simp add: Let_def)
  next
    case False
    then have "next_life_milestone_idx ?g1 = next_life_milestone_idx ?g0 + 1"
      using check_idx_cases [of ?g0] by blast
    with award_trace_lower [of ?g1 ds] Cons.IH [of ?g1]
    show ?thesis by (auto simp add: Let_def sorted_wrt_append)
  qed
qed

text \<open>
  C7. When the distance has reached the milestone under the cursor, the check adds exactly
  one life if the player is below the maximum (none otherwise) and advances the cursor by
  one; and over any run of ticks, whatever distances they observe, the milestones awarded
  are strictly increasing in their index, so no milestone is awarded twice.
\<close>

theorem life_milestone_awarded_once:
  "(next_life_milestone_idx gm < length (life_milestones gm) \<and>
    life_milestones gm ! next_life_milestone_idx gm \<le> distance gm \<longrightarrow>
      next_life_milestone_idx (check_life_milestones gm) = next_life_milestone_idx gm + 1 \<and>
      lives (player (check_life_milestones gm)) =
        (if lives (player gm) < max_lives (player gm)
         then lives (player gm) + 1 else lives (player gm))) \<and>
   distinct (award_trace gm ds) \<and> sorted_wrt (<) (award_trace gm ds)"
  using check_triggered(1,2) [of gm] award_trace_increasing [of gm ds]
    strict_sorted_iff [of "award_trace gm ds"]
  by blast

theorem life_milestone_awarded_once_witness:
  "next_life_milestone_idx GM0 < length (life_milestones GM0) \<and>
   life_milestones GM0 ! next_life_milestone_idx GM0 \<le> distance GM0 \<and>
   next_life_milestone_idx (check_life_milestones GM0) = 1 \<and>
   lives (player (check_life_milestones GM0)) = 3 \<and>
   check_life_milestones (check_life_milestones GM0) = check_life_milestones GM0 \<and>
   award_trace GM0 [1000, 1000, 1500] = [0] \<and>
   distinct (award_trace GM0 [1000, 1000, 1500])"
proof -
  have a: "next_life_milestone_idx GM0 < length (life_milestones GM0)"
    and b: "life_milestones GM0 ! next_life_milestone_idx GM0 \<le> distance GM0"
    by (simp_all add: GM0_def start_game_def)
  have v: "next_life_milestone_idx GM0 = 0" "lives (player GM0) = 2" "max_lives (player GM0) = 3"
    by (simp_all add: GM0_def start_game_def Squirrel_init_def)
  from life_milestone_awarded_once [of GM0 "[1000, 1000, 1500]"] a b
  have c: "next_life_milestone_idx (check_life_milestones GM0) = 1"
    and d: "lives (player (check_life_milestones GM0)) = 3"
    and e: "distinct (award_trace GM0 [1000, 1000, 1500])"
    by (simp_all add: v)
  have f: "check_life_milestones (check_life_milestones GM0) = check_life_milestones GM0"
    by (simp add: check_life_milestones_def GM0_def start_game_def Let_def add_life_def
        Squirrel_init_def)
  have g: "award_trace GM0 [1000, 1000, 1500] = [0]"
    by (simp add: check_life_milestones_def GM0_def start_game_def Let_def add_life_def
        Squirrel_init_def)
  from a b c d e f g show ?thesis by blast
qed

theorem generate_chunk_rescues_every_gap_witness:
  "\<exists>g' r'. generate_chunk 1200 500 (LevelGenerator_init False, R0) = Inr (g', r') \<and>
     new_gaps (LevelGenerator_init False) g' = [Gap_init 1200 128 584] \<and>
     (\<exists>p\<in>set (new_platforms (LevelGenerator_init False) g'). rescues p (Gap_init 1200 128 584))"
proof -
  from generate_chunk_rescues_every_gap [of 1200 500 "LevelGenerator_init False" R0]
  obtain g' r' where eq: "generate_chunk 1200 500 (LevelGenerator_init False, R0) = Inr (g', r')"
    and all: "\<forall>gap\<in>set (new_gaps (LevelGenerator_init False) g').
                \<exists>p\<in>set (new_platforms (LevelGenerator_init False) g'). rescues p gap"
    by blast
  from chunk_with_gap eq have "gaps g' = [Gap_init 1200 128 584]" by simp
  then have ng: "new_gaps (LevelGenerator_init False) g' = [Gap_init 1200 128 584]"
    by (simp add: new_gaps_def LevelGenerator_init_def)
  with all have "\<exists>p\<in>set (new_platforms (LevelGenerator_init False) g').
      rescues p (Gap_init 1200 128 584)" by simp
  with eq ng show ?thesis by blast
qed

lemma ground_at_loop_None:
  "ground_at_loop gs x0 = None \<longleftrightarrow> (\<exists>gap\<in>set gs. contains_x gap x0)"
  by (induction gs) auto

text \<open>
  C10. For every gap stored in the generator (constructed with a start and a non-negative
  width), \<open>contains_x\<close> holds at every \<open>x\<close> from the start to start plus width, both ends
  included, and \<open>get_ground_at\<close> returns \<open>None\<close> there; in particular at the right
  boundary, which is where the first ground tile after the gap begins.
\<close>

theorem gap_membership_is_closed:
  assumes "Gap_init sx w gy \<in> set (gaps g)" and "0 \<le> w"
  shows "(\<forall>x0. sx \<le> x0 \<and> x0 \<le> sx + w \<longrightarrow>
            contains_x (Gap_init sx w gy) x0 \<and> get_ground_at g x0 = None) \<and>
         contains_x (Gap_init sx w gy) (sx + w) \<and> get_ground_at g (sx + w) = None"
proof -
  have c: "\<And>x0. sx \<le> x0 \<and> x0 \<le> sx + w \<Longrightarrow> contains_x (Gap_init sx w gy) x0"
    by (simp add: contains_x_def Gap_init_def)
  then have "\<And>x0. sx \<le> x0 \<and> x0 \<le> sx + w \<Longrightarrow> get_ground_at g x0 = None"
    using assms(1) unfolding get_ground_at_def ground_at_loop_None by blast
  with c assms(2) show ?thesis by simp
qed

theorem gap_membership_is_closed_witness:
  "\<exists>g' r'. generate_chunk 1200 500 (LevelGenerator_init False, R0) = Inr (g', r') \<and>
     Gap_init 1200 128 584 \<in> set (gaps g') \<and> (0::real) \<le> 128 \<and>
     contains_x (Gap_init 1200 128 584) 1328 \<and>
     get_ground_at g' 1328 = None \<and>
     1328 \<in> set (map Ground.world_x (ground_tiles g'))"
proof -
  from generate_chunk_grows [of 1200 500 "LevelGenerator_init False" R0]
  obtain g' r' where eq: "generate_chunk 1200 500 (LevelGenerator_init False, R0) = Inr (g', r')"
    by blast
  from chunk_with_gap eq have gs: "gaps g' = [Gap_init 1200 128 584]"
    and ts: "map Ground.world_x (ground_tiles g') = [1328, 1392, 1456, 1520, 1584]" by simp_all
  have m: "Gap_init 1200 128 584 \<in> set (gaps g')" by (simp add: gs)
  from gap_membership_is_closed [OF m]
  have "contains_x (Gap_init 1200 128 584) (1200 + 128) \<and> get_ground_at g' (1200 + 128) = None"
    by simp
  then have "contains_x (Gap_init 1200 128 584) 1328 \<and> get_ground_at g' 1328 = None" by simp
  moreover have "1328 \<in> set (map Ground.world_x (ground_tiles g'))" unfolding ts by simp
  ultimately show ?thesis using eq m by auto
qed

end
